theory Spec2Isabelle
  imports Main "HOL-Library.Word"
begin

unbundle bit_operations_syntax

section \<open>The Wi-Fi configuration glue of the smart-light example\<close>

text \<open>
  A shallow embedding of \<^verbatim>\<open>wifi_config_esp.c\<close>. The file is binding code over
  the ESP-IDF Wi-Fi driver, its event loop and the FreeRTOS event groups. None of
  these is part of the file, so each is a parameter or a small model here:
  \<^item> a call into the driver is answered by the \<open>vendor\<close>, a function from the calls
    made so far and the present call to the 32-bit value the driver returns. Every
    such call is appended to the world's \<open>calls\<close>, with its arguments;
  \<^item> an event group is a 32-bit word in a store indexed by its handle; setting and
    clearing bits are \<open>OR\<close> and \<open>AND NOT\<close> on that word;
  \<^item> a failed \<^verbatim>\<open>ESP_ERROR_CHECK\<close> and an assertion on a \<^verbatim>\<open>NULL\<close> event group
    end the program: they are faults, and a fault keeps the world in which it
    happened.
  Log output is left out throughout.
\<close>

subsection \<open>Types and constants of the platform headers\<close>

type_synonym esp_err_t = "32 word"
type_synonym EventBits_t = "32 word"
type_synonym EventGroupHandle_t = "32 word"

definition ESP_OK :: esp_err_t where
  "ESP_OK = 0"

definition ESP_ERR_NO_MEM :: esp_err_t where
  "ESP_ERR_NO_MEM = 0x101"

definition NULL :: EventGroupHandle_t where
  "NULL = 0"

datatype wifi_mode_t = WIFI_MODE_STA | WIFI_MODE_AP | WIFI_MODE_APSTA

datatype wifi_storage_t = WIFI_STORAGE_FLASH | WIFI_STORAGE_RAM

datatype wifi_interface_t = ESP_IF_WIFI_STA | ESP_IF_WIFI_AP

datatype wifi_auth_mode_t = WIFI_AUTH_OPEN | WIFI_AUTH_WPA_WPA2_PSK

datatype smartconfig_type_t = SC_TYPE_ESPTOUCH_AIRKISS

datatype esp_event_base_t = WIFI_EVENT | IP_EVENT

text \<open>
  Event identifiers. An identifier means something only together with its event
  base; the constructors are the labels the source names, \<open>OTHER_EVENT_ID\<close> is any
  other number.
\<close>

datatype event_id =
    WIFI_EVENT_STA_START
  | WIFI_EVENT_STA_CONNECTED
  | WIFI_EVENT_STA_DISCONNECTED
  | WIFI_EVENT_AP_START
  | WIFI_EVENT_AP_STOP
  | WIFI_EVENT_AP_STACONNECTED
  | WIFI_EVENT_AP_STADISCONNECTED
  | SYSTEM_EVENT_AP_STAIPASSIGNED
  | IP_EVENT_STA_GOT_IP
  | OTHER_EVENT_ID "32 word"

text \<open>What a handler is registered for: one identifier or \<^verbatim>\<open>ESP_EVENT_ANY_ID\<close>.\<close>

datatype id_filter = ESP_EVENT_ANY_ID | Only_id event_id

text \<open>The two callbacks of the file.\<close>

datatype handler = Ip_event_handler | Wifi_event_handler_new

text \<open>The outcome codes of \<^verbatim>\<open>wifi_config_internal.h\<close> that the file returns.\<close>

datatype wifi_wait_result =
    EVENT_WIFI_CONNECTED
  | EVENT_WIFI_DISCONNECTED
  | EVENT_SMARTCONFIG_STOP
  | EVENT_WAIT_TIMEOUT

text \<open>
  \<^verbatim>\<open>wifi_config_t\<close> is a union whose \<^verbatim>\<open>ap\<close> and \<^verbatim>\<open>sta\<close> members both begin
  with \<^verbatim>\<open>ssid[32]\<close> and \<^verbatim>\<open>password[64]\<close>. The record keeps the fields the
  file writes; the file sets no other byte of the union. \<open>cfg_ssid\<close> and
  \<open>cfg_password\<close> are the bytes from the start of the two arrays on, as the last
  copy into them left them: 32 and 64 bytes when the copy kept to the array, more
  when it ran past its end.
\<close>

record wifi_config_t =
  cfg_ssid :: "char list"
  cfg_password :: "char list"
  cfg_ssid_len :: "8 word"
  cfg_channel :: "8 word"
  cfg_authmode :: wifi_auth_mode_t
  cfg_max_connection :: "8 word"

definition NUL :: char where
  "NUL = CHR 0x00"

definition zero_wifi_config :: wifi_config_t where
  "zero_wifi_config =
     \<lparr>cfg_ssid = replicate 32 NUL, cfg_password = replicate 64 NUL, cfg_ssid_len = 0,
      cfg_channel = 0, cfg_authmode = WIFI_AUTH_OPEN, cfg_max_connection = 0\<rparr>"

text \<open>
  \<^verbatim>\<open>strncpy (dst, src, n)\<close> writes exactly \<open>n\<close> bytes: the first \<open>n\<close> characters of
  \<open>src\<close>, padded with \<open>NUL\<close>. \<^verbatim>\<open>strcpy (dst, src)\<close> writes \<open>src\<close> and its
  terminator from the start of \<open>dst\<close> on, whatever the size of \<open>dst\<close>: it has no
  bound, and when the string and its terminator do not fit, the bytes it wrote reach
  past the end of \<open>dst\<close>.
\<close>

definition strncpy :: "char list \<Rightarrow> char list \<Rightarrow> nat \<Rightarrow> char list" where
  "strncpy dst src n = take n src @ replicate (n - length src) NUL @ drop n dst"

definition strcpy :: "char list \<Rightarrow> char list \<Rightarrow> char list" where
  "strcpy dst src = src @ NUL # drop (Suc (length src)) dst"

subsection \<open>Calls into the driver\<close>

datatype vendor_call =
    Esp_netif_init
  | XEventGroupCreate
  | Esp_event_loop_create_default
  | Esp_netif_create_default_wifi_ap
  | Esp_netif_create_default_wifi_sta
  | Esp_wifi_init
  | Esp_wifi_disconnect
  | Esp_wifi_stop
  | Esp_event_handler_register esp_event_base_t id_filter handler
  | Esp_wifi_set_storage wifi_storage_t
  | Esp_wifi_set_mode wifi_mode_t
  | Esp_wifi_set_config wifi_interface_t wifi_config_t
  | Esp_wifi_connect
  | Esp_wifi_get_channel
  | Esp_smartconfig_set_type smartconfig_type_t
  | Esp_smartconfig_stop
  | Esp_wifi_start

type_synonym vendor = "vendor_call list \<Rightarrow> vendor_call \<Rightarrow> 32 word"

subsection \<open>The world: the statics of the file and the state of the platform\<close>

text \<open>
  \<open>sg_wifi_event_group\<close>, \<open>sg_wifi_init_done\<close> and \<open>sg_wifi_sta_connected\<close> are the
  file-level statics. \<open>router_wifi_config_apsta\<close> and \<open>router_wifi_config_sta\<close> are
  the function-level statics \<^verbatim>\<open>router_wifi_config\<close> of \<^verbatim>\<open>wifi_ap_sta_connect\<close>
  and of \<^verbatim>\<open>wifi_sta_connect\<close>. The rest is the platform: the event groups that
  exist, the handlers the event loop holds, and the calls made to the driver.
\<close>

record world =
  sg_wifi_event_group :: EventGroupHandle_t
  sg_wifi_init_done :: bool
  sg_wifi_sta_connected :: bool
  router_wifi_config_apsta :: wifi_config_t
  router_wifi_config_sta :: wifi_config_t
  event_groups :: "EventGroupHandle_t \<rightharpoonup> EventBits_t"
  handlers :: "(esp_event_base_t \<times> id_filter \<times> handler) list"
  calls :: "vendor_call list"

definition boot :: world where
  "boot =
     \<lparr>sg_wifi_event_group = NULL, sg_wifi_init_done = False, sg_wifi_sta_connected = False,
      router_wifi_config_apsta = zero_wifi_config, router_wifi_config_sta = zero_wifi_config,
      event_groups = Map.empty, handlers = [], calls = []\<rparr>"

datatype fault = Abort esp_err_t | Null_event_group

type_synonym 'a result = "(fault \<times> world) + ('a \<times> world)"

definition CONNECTED_BIT :: EventBits_t where
  "CONNECTED_BIT = 1"

definition ESPTOUCH_DONE_BIT :: EventBits_t where
  "ESPTOUCH_DONE_BIT = 2"

definition STA_DISCONNECTED_BIT :: EventBits_t where
  "STA_DISCONNECTED_BIT = 4"

subsection \<open>Platform primitives\<close>

text \<open>A driver call: the vendor answers it, and it is recorded.\<close>

definition vcall :: "vendor \<Rightarrow> vendor_call \<Rightarrow> world \<Rightarrow> 32 word \<times> world" where
  "vcall V c s = (V (calls s) c, s\<lparr>calls := calls s @ [c]\<rparr>)"

text \<open>
  \<^verbatim>\<open>xEventGroupCreate\<close> returns the handle of a new group with no bit set, or
  \<^verbatim>\<open>NULL\<close> when there is no memory for it.
\<close>

definition xEventGroupCreate :: "vendor \<Rightarrow> world \<Rightarrow> EventGroupHandle_t \<times> world" where
  "xEventGroupCreate V s =
     (let (h, s1) = vcall V XEventGroupCreate s
      in (h, if h = NULL then s1 else s1\<lparr>event_groups := (event_groups s1)(h \<mapsto> 0)\<rparr>))"

definition group_bits :: "world \<Rightarrow> EventGroupHandle_t \<Rightarrow> EventBits_t option" where
  "group_bits s h = (if h = NULL then None else event_groups s h)"

definition xEventGroupClearBits ::
  "EventGroupHandle_t \<Rightarrow> EventBits_t \<Rightarrow> world \<Rightarrow> (fault \<times> world) + world" where
  "xEventGroupClearBits h m s =
     (case group_bits s h of
        None \<Rightarrow> Inl (Null_event_group, s)
      | Some b \<Rightarrow> Inr (s\<lparr>event_groups := (event_groups s)(h \<mapsto> b AND NOT m)\<rparr>))"

definition xEventGroupSetBits ::
  "EventGroupHandle_t \<Rightarrow> EventBits_t \<Rightarrow> world \<Rightarrow> (fault \<times> world) + world" where
  "xEventGroupSetBits h m s =
     (case group_bits s h of
        None \<Rightarrow> Inl (Null_event_group, s)
      | Some b \<Rightarrow> Inr (s\<lparr>event_groups := (event_groups s)(h \<mapsto> b OR m)\<rparr>))"

text \<open>
  \<^verbatim>\<open>xEventGroupWaitBits\<close> blocks until the awaited bits are set or the block time
  is over, and returns the bits of the group as they are at that moment; when the
  wait condition is met and \<open>clearOnExit\<close> is set it clears the awaited bits. The
  model is the end of the wait: events that arrive while the caller sleeps are
  deliveries that come before it, so the block time does not enter.
\<close>

definition xEventGroupWaitBits ::
  "EventGroupHandle_t \<Rightarrow> EventBits_t \<Rightarrow> bool \<Rightarrow> bool \<Rightarrow> world \<Rightarrow> EventBits_t result" where
  "xEventGroupWaitBits h m clearOnExit waitForAll s =
     (case group_bits s h of
        None \<Rightarrow> Inl (Null_event_group, s)
      | Some b \<Rightarrow>
          (let met = (if waitForAll then b AND m = m else b AND m \<noteq> 0)
           in Inr (b, if met \<and> clearOnExit
                      then s\<lparr>event_groups := (event_groups s)(h \<mapsto> b AND NOT m)\<rparr>
                      else s)))"

text \<open>
  \<^verbatim>\<open>esp_event_handler_register\<close>: on success the event loop holds the handler
  for the base and identifier, after those it held before; registering the same triple
  again adds nothing.
\<close>

definition add_handler ::
  "esp_event_base_t \<times> id_filter \<times> handler \<Rightarrow> (esp_event_base_t \<times> id_filter \<times> handler) list \<Rightarrow>
   (esp_event_base_t \<times> id_filter \<times> handler) list" where
  "add_handler r hs = (if r \<in> set hs then hs else hs @ [r])"

definition esp_event_handler_register ::
  "vendor \<Rightarrow> esp_event_base_t \<Rightarrow> id_filter \<Rightarrow> handler \<Rightarrow> world \<Rightarrow> esp_err_t \<times> world" where
  "esp_event_handler_register V base idf h s =
     (let (rc, s1) = vcall V (Esp_event_handler_register base idf h) s
      in (rc, if rc = ESP_OK then s1\<lparr>handlers := add_handler (base, idf, h) (handlers s1)\<rparr>
              else s1))"

subsection \<open>The functions of the file\<close>

definition is_wifi_sta_connected :: "world \<Rightarrow> bool \<times> world" where
  "is_wifi_sta_connected s = (sg_wifi_sta_connected s, s)"

text \<open>
  The cases of the \<^verbatim>\<open>switch\<close> in \<^verbatim>\<open>_wifi_event_handler_new\<close>, in its order; the
  last two are its \<^verbatim>\<open>default\<close>. The event data is only logged.
\<close>

definition wifi_event_handler_new ::
  "vendor \<Rightarrow> event_id \<Rightarrow> world \<Rightarrow> (fault \<times> world) + world" where
  "wifi_event_handler_new V ev s =
     (case ev of
        WIFI_EVENT_STA_START \<Rightarrow> Inr s
      | WIFI_EVENT_STA_CONNECTED \<Rightarrow> Inr s
      | WIFI_EVENT_STA_DISCONNECTED \<Rightarrow>
          (case xEventGroupClearBits (sg_wifi_event_group s) CONNECTED_BIT s of
             Inl f \<Rightarrow> Inl f
           | Inr s1 \<Rightarrow>
               (case xEventGroupSetBits (sg_wifi_event_group s1) STA_DISCONNECTED_BIT s1 of
                  Inl f \<Rightarrow> Inl f
                | Inr s2 \<Rightarrow> Inr (s2\<lparr>sg_wifi_sta_connected := False\<rparr>)))
      | WIFI_EVENT_AP_START \<Rightarrow> Inr (snd (vcall V Esp_wifi_get_channel s))
      | WIFI_EVENT_AP_STOP \<Rightarrow> Inr s
      | WIFI_EVENT_AP_STACONNECTED \<Rightarrow> Inr s
      | WIFI_EVENT_AP_STADISCONNECTED \<Rightarrow> Inr s
      | SYSTEM_EVENT_AP_STAIPASSIGNED \<Rightarrow> Inr s
      | IP_EVENT_STA_GOT_IP \<Rightarrow> Inr s
      | OTHER_EVENT_ID n \<Rightarrow> Inr s)"

definition ip_event_handler :: "event_id \<Rightarrow> world \<Rightarrow> (fault \<times> world) + world" where
  "ip_event_handler ev s = xEventGroupSetBits (sg_wifi_event_group s) CONNECTED_BIT s"

text \<open>
  The block \<^verbatim>\<open>if (!sg_wifi_init_done) { ... }\<close>, which \<^verbatim>\<open>wifi_ap_init\<close> and
  \<^verbatim>\<open>wifi_sta_init\<close> both open with, statement for statement. \<open>Some rc\<close> is a
  \<^verbatim>\<open>return rc\<close> from inside the block, \<open>None\<close> is control reaching its end.
\<close>

definition wifi_init_block :: "vendor \<Rightarrow> world \<Rightarrow> esp_err_t option result" where
  "wifi_init_block V s =
     (if \<not> sg_wifi_init_done s then
        (let (r0, s1) = vcall V Esp_netif_init s;
             (h, s2) = xEventGroupCreate V s1;
             s3 = s2\<lparr>sg_wifi_event_group := h\<rparr>
         in if sg_wifi_event_group s3 = NULL then Inr (Some ESP_ERR_NO_MEM, s3)
            else
              (let (rc1, s4) = vcall V Esp_event_loop_create_default s3
               in if rc1 \<noteq> ESP_OK then Inl (Abort rc1, s4)
                  else
                    (let (r2, s5) = vcall V Esp_netif_create_default_wifi_ap s4;
                         (r3, s6) = vcall V Esp_netif_create_default_wifi_sta s5;
                         (rc, s7) = vcall V Esp_wifi_init s6
                     in if rc \<noteq> ESP_OK then Inr (Some rc, s7)
                        else Inr (None, s7\<lparr>sg_wifi_init_done := True\<rparr>))))
      else Inr (None, s))"

text \<open>
  The local \<^verbatim>\<open>wifi_config\<close> of \<^verbatim>\<open>wifi_ap_init\<close>, as lines 175 to 184 fill it,
  with no test of a length.
\<close>

definition ap_wifi_config ::
  "char list \<Rightarrow> char list option \<Rightarrow> 8 word \<Rightarrow> wifi_config_t" where
  "ap_wifi_config ssid psw ch =
     (let c0 = zero_wifi_config;
          c1 = c0\<lparr>cfg_ssid := strcpy (cfg_ssid c0) ssid\<rparr>;
          c2 = c1\<lparr>cfg_ssid_len := of_nat (length ssid)\<rparr>;
          c3 = c2\<lparr>cfg_max_connection := 3\<rparr>;
          c4 = c3\<lparr>cfg_channel := ch\<rparr>
      in case psw of
           Some p \<Rightarrow>
             c4\<lparr>cfg_password := strcpy (cfg_password c4) p,
                cfg_authmode := WIFI_AUTH_WPA_WPA2_PSK\<rparr>
         | None \<Rightarrow> c4\<lparr>cfg_authmode := WIFI_AUTH_OPEN\<rparr>)"

definition all_event_bits :: EventBits_t where
  "all_event_bits = CONNECTED_BIT OR ESPTOUCH_DONE_BIT OR STA_DISCONNECTED_BIT"

definition wifi_ap_init ::
  "vendor \<Rightarrow> char list \<Rightarrow> char list option \<Rightarrow> 8 word \<Rightarrow> world \<Rightarrow> esp_err_t result" where
  "wifi_ap_init V ssid psw ch s =
     (case wifi_init_block V s of
        Inl f \<Rightarrow> Inl f
      | Inr (Some rc, s1) \<Rightarrow> Inr (rc, s1)
      | Inr (None, s1) \<Rightarrow>
          (let s2 = s1\<lparr>sg_wifi_sta_connected := False\<rparr>
           in case xEventGroupClearBits (sg_wifi_event_group s2) all_event_bits s2 of
                Inl f \<Rightarrow> Inl f
              | Inr s3 \<Rightarrow>
                  (let (rd, s4) = vcall V Esp_wifi_disconnect s3;
                       (rs, s5) = vcall V Esp_wifi_stop s4;
                       (e1, s6) = esp_event_handler_register V IP_EVENT
                                    (Only_id IP_EVENT_STA_GOT_IP) Ip_event_handler s5
                   in if e1 \<noteq> ESP_OK then Inl (Abort e1, s6)
                      else
                        (let (e2, s7) = esp_event_handler_register V WIFI_EVENT
                                          ESP_EVENT_ANY_ID Wifi_event_handler_new s6
                         in if e2 \<noteq> ESP_OK then Inl (Abort e2, s7)
                            else
                              (let (rc, s8) = vcall V (Esp_wifi_set_storage WIFI_STORAGE_RAM) s7
                               in if rc \<noteq> ESP_OK then Inr (rc, s8)
                                  else
                                    (let wifi_config = ap_wifi_config ssid psw ch;
                                         (rc, s9) = vcall V (Esp_wifi_set_mode WIFI_MODE_AP) s8
                                     in if rc \<noteq> ESP_OK then Inr (rc, s9)
                                        else
                                          (let (rc, s10) =
                                                 vcall V (Esp_wifi_set_config ESP_IF_WIFI_AP
                                                            wifi_config) s9
                                           in if rc \<noteq> ESP_OK then Inr (rc, s10)
                                              else Inr (ESP_OK, s10))))))))"

text \<open>
  \<^verbatim>\<open>wifi_ap_sta_connect\<close> and \<^verbatim>\<open>wifi_sta_connect\<close> are the same text but
  for the mode they set; each fills a static \<^verbatim>\<open>router_wifi_config\<close> of its own,
  after a \<^verbatim>\<open>memset\<close> to zero. Their \<^verbatim>\<open>ssid\<close> and \<^verbatim>\<open>psw\<close> are strings, not
  \<^verbatim>\<open>NULL\<close>: the source hands them to \<^verbatim>\<open>strncpy\<close> unchecked.
\<close>

definition wifi_ap_sta_connect ::
  "vendor \<Rightarrow> char list \<Rightarrow> char list \<Rightarrow> world \<Rightarrow> esp_err_t result" where
  "wifi_ap_sta_connect V ssid psw s =
     (let s1 = s\<lparr>router_wifi_config_apsta := zero_wifi_config\<rparr>;
          s2 = s1\<lparr>router_wifi_config_apsta := (router_wifi_config_apsta s1)
                  \<lparr>cfg_ssid := strncpy (cfg_ssid (router_wifi_config_apsta s1)) ssid 32\<rparr>\<rparr>;
          s3 = s2\<lparr>router_wifi_config_apsta := (router_wifi_config_apsta s2)
                  \<lparr>cfg_password := strncpy (cfg_password (router_wifi_config_apsta s2)) psw 64\<rparr>\<rparr>;
          (rc, s4) = vcall V (Esp_wifi_set_storage WIFI_STORAGE_FLASH) s3
      in if rc \<noteq> ESP_OK then Inr (rc, s4)
         else
           (let (rc, s5) = vcall V (Esp_wifi_set_mode WIFI_MODE_APSTA) s4
            in if rc \<noteq> ESP_OK then Inr (rc, s5)
               else
                 (let (rc, s6) = vcall V (Esp_wifi_set_config ESP_IF_WIFI_STA
                                            (router_wifi_config_apsta s5)) s5
                  in if rc \<noteq> ESP_OK then Inr (rc, s6)
                     else
                       (let (rc, s7) = vcall V Esp_wifi_connect s6
                        in if ESP_OK \<noteq> rc then Inr (rc, s7)
                           else Inr (0, s7)))))"

definition wifi_sta_connect ::
  "vendor \<Rightarrow> char list \<Rightarrow> char list \<Rightarrow> world \<Rightarrow> esp_err_t result" where
  "wifi_sta_connect V ssid psw s =
     (let s1 = s\<lparr>router_wifi_config_sta := zero_wifi_config\<rparr>;
          s2 = s1\<lparr>router_wifi_config_sta := (router_wifi_config_sta s1)
                  \<lparr>cfg_ssid := strncpy (cfg_ssid (router_wifi_config_sta s1)) ssid 32\<rparr>\<rparr>;
          s3 = s2\<lparr>router_wifi_config_sta := (router_wifi_config_sta s2)
                  \<lparr>cfg_password := strncpy (cfg_password (router_wifi_config_sta s2)) psw 64\<rparr>\<rparr>;
          (rc, s4) = vcall V (Esp_wifi_set_storage WIFI_STORAGE_FLASH) s3
      in if rc \<noteq> ESP_OK then Inr (rc, s4)
         else
           (let (rc, s5) = vcall V (Esp_wifi_set_mode WIFI_MODE_STA) s4
            in if rc \<noteq> ESP_OK then Inr (rc, s5)
               else
                 (let (rc, s6) = vcall V (Esp_wifi_set_config ESP_IF_WIFI_STA
                                            (router_wifi_config_sta s5)) s5
                  in if rc \<noteq> ESP_OK then Inr (rc, s6)
                     else
                       (let (rc, s7) = vcall V Esp_wifi_connect s6
                        in if ESP_OK \<noteq> rc then Inr (rc, s7)
                           else Inr (0, s7)))))"

definition wifi_stop_softap :: "vendor \<Rightarrow> world \<Rightarrow> esp_err_t result" where
  "wifi_stop_softap V s =
     (let (rc, s1) = vcall V (Esp_wifi_set_mode WIFI_MODE_STA) s
      in Inr (0, s1))"

definition wifi_sta_init :: "vendor \<Rightarrow> world \<Rightarrow> esp_err_t result" where
  "wifi_sta_init V s =
     (case wifi_init_block V s of
        Inl f \<Rightarrow> Inl f
      | Inr (Some rc, s1) \<Rightarrow> Inr (rc, s1)
      | Inr (None, s1) \<Rightarrow>
          (let s2 = s1\<lparr>sg_wifi_sta_connected := False\<rparr>
           in case xEventGroupClearBits (sg_wifi_event_group s2) all_event_bits s2 of
                Inl f \<Rightarrow> Inl f
              | Inr s3 \<Rightarrow>
                  (let (rs, s4) = vcall V Esp_wifi_stop s3;
                       (rc, s5) = vcall V (Esp_wifi_set_storage WIFI_STORAGE_FLASH) s4
                   in if rc \<noteq> ESP_OK then Inr (rc, s5)
                      else
                        (let (rc, s6) = vcall V (Esp_wifi_set_mode WIFI_MODE_STA) s5
                         in if rc \<noteq> ESP_OK then Inr (rc, s6)
                            else Inr (ESP_OK, s6)))))"

definition wifi_start_smartconfig :: "vendor \<Rightarrow> world \<Rightarrow> esp_err_t result" where
  "wifi_start_smartconfig V s =
     (let (ret, s1) = vcall V (Esp_smartconfig_set_type SC_TYPE_ESPTOUCH_AIRKISS) s
      in if ESP_OK \<noteq> ret then Inr (ret, s1) else Inr (ESP_OK, s1))"

definition wifi_stop_smartconfig :: "vendor \<Rightarrow> world \<Rightarrow> esp_err_t result" where
  "wifi_stop_smartconfig V s =
     (let (ret, s1) = vcall V Esp_smartconfig_stop s
      in case xEventGroupClearBits (sg_wifi_event_group s1) all_event_bits s1 of
           Inl f \<Rightarrow> Inl f
         | Inr s2 \<Rightarrow> Inr (ret, s2))"

text \<open>
  The block time \<^verbatim>\<open>timeout_ms / portTICK_RATE_MS\<close> bounds how long the caller
  sleeps in \<^verbatim>\<open>xEventGroupWaitBits\<close>; the bits it is handed are those at the end
  of the wait.
\<close>

definition wifi_wait_event :: "32 word \<Rightarrow> world \<Rightarrow> wifi_wait_result result" where
  "wifi_wait_event timeout_ms s =
     (case xEventGroupWaitBits (sg_wifi_event_group s) all_event_bits True False s of
        Inl f \<Rightarrow> Inl f
      | Inr (uxBits, s1) \<Rightarrow>
          (if uxBits AND CONNECTED_BIT \<noteq> 0 then Inr (EVENT_WIFI_CONNECTED, s1)
           else if uxBits AND STA_DISCONNECTED_BIT \<noteq> 0 then Inr (EVENT_WIFI_DISCONNECTED, s1)
           else if uxBits AND ESPTOUCH_DONE_BIT \<noteq> 0 then Inr (EVENT_SMARTCONFIG_STOP, s1)
           else Inr (EVENT_WAIT_TIMEOUT, s1)))"

definition wifi_start_running :: "vendor \<Rightarrow> world \<Rightarrow> esp_err_t result" where
  "wifi_start_running V s = Inr (vcall V Esp_wifi_start s)"

subsection \<open>The event loop and sequences of calls\<close>

text \<open>
  Posting an event runs, in the order of their registration, the handlers the
  event loop holds for its base and identifier.
\<close>

fun run_handler :: "vendor \<Rightarrow> handler \<Rightarrow> event_id \<Rightarrow> world \<Rightarrow> (fault \<times> world) + world" where
  "run_handler V Ip_event_handler ev s = ip_event_handler ev s"
| "run_handler V Wifi_event_handler_new ev s = wifi_event_handler_new V ev s"

fun dispatch ::
  "vendor \<Rightarrow> esp_event_base_t \<Rightarrow> event_id \<Rightarrow> (esp_event_base_t \<times> id_filter \<times> handler) list \<Rightarrow>
   world \<Rightarrow> (fault \<times> world) + world" where
  "dispatch V base ev [] s = Inr s"
| "dispatch V base ev ((b, f, h) # rs) s =
     (if b = base \<and> (f = ESP_EVENT_ANY_ID \<or> f = Only_id ev)
      then (case run_handler V h ev s of
              Inl e \<Rightarrow> Inl e
            | Inr s1 \<Rightarrow> dispatch V base ev rs s1)
      else dispatch V base ev rs s)"

definition esp_event_post ::
  "vendor \<Rightarrow> esp_event_base_t \<Rightarrow> event_id \<Rightarrow> world \<Rightarrow> (fault \<times> world) + world" where
  "esp_event_post V base ev s = dispatch V base ev (handlers s) s"

text \<open>
  What can happen to the file from outside: a call of one of its functions, or the
  event loop delivering an event.
\<close>

datatype action =
    Wifi_ap_init "char list" "char list option" "8 word"
  | Wifi_sta_init
  | Wifi_ap_sta_connect "char list" "char list"
  | Wifi_sta_connect "char list" "char list"
  | Wifi_stop_softap
  | Wifi_start_smartconfig
  | Wifi_stop_smartconfig
  | Wifi_wait_event "32 word"
  | Wifi_start_running
  | Is_wifi_sta_connected
  | Event esp_event_base_t event_id

datatype outcome = Status esp_err_t | Waited wifi_wait_result | Connected bool | Delivered

definition returning :: "('a \<Rightarrow> outcome) \<Rightarrow> 'a result \<Rightarrow> outcome result" where
  "returning f r = (case r of Inl e \<Rightarrow> Inl e | Inr (x, s) \<Rightarrow> Inr (f x, s))"

fun step :: "vendor \<Rightarrow> action \<Rightarrow> world \<Rightarrow> outcome result" where
  "step V (Wifi_ap_init ssid psw ch) s = returning Status (wifi_ap_init V ssid psw ch s)"
| "step V Wifi_sta_init s = returning Status (wifi_sta_init V s)"
| "step V (Wifi_ap_sta_connect ssid psw) s = returning Status (wifi_ap_sta_connect V ssid psw s)"
| "step V (Wifi_sta_connect ssid psw) s = returning Status (wifi_sta_connect V ssid psw s)"
| "step V Wifi_stop_softap s = returning Status (wifi_stop_softap V s)"
| "step V Wifi_start_smartconfig s = returning Status (wifi_start_smartconfig V s)"
| "step V Wifi_stop_smartconfig s = returning Status (wifi_stop_smartconfig V s)"
| "step V (Wifi_wait_event timeout_ms) s = returning Waited (wifi_wait_event timeout_ms s)"
| "step V Wifi_start_running s = returning Status (wifi_start_running V s)"
| "step V Is_wifi_sta_connected s = returning Connected (Inr (is_wifi_sta_connected s))"
| "step V (Event base ev) s =
     (case esp_event_post V base ev s of Inl e \<Rightarrow> Inl e | Inr s1 \<Rightarrow> Inr (Delivered, s1))"

text \<open>A fault ends the run; the outcomes are those of the actions, in order.\<close>

fun run :: "vendor \<Rightarrow> action list \<Rightarrow> world \<Rightarrow> outcome list result" where
  "run V [] s = Inr ([], s)"
| "run V (a # as) s =
     (case step V a s of
        Inl e \<Rightarrow> Inl e
      | Inr (out, s1) \<Rightarrow>
          (case run V as s1 of
             Inl e \<Rightarrow> Inl e
           | Inr (outs, s2) \<Rightarrow> Inr (out # outs, s2)))"

text \<open>The world a result ends in, returned or faulted.\<close>

definition final :: "'a result \<Rightarrow> world" where
  "final r = (case r of Inl (e, s) \<Rightarrow> s | Inr (x, s) \<Rightarrow> s)"

subsection \<open>Drivers to run the file against\<close>

text \<open>A driver that accepts every call and has memory for an event group.\<close>

definition plain_vendor :: vendor where
  "plain_vendor h c = (if c = XEventGroupCreate then 0x3FFB0000 else ESP_OK)"

text \<open>
  The world after \<^verbatim>\<open>wifi_ap_init\<close>, a station disconnect and an address: the
  bits for connected and for disconnected are both pending.
\<close>

definition flapped :: world where
  "flapped =
     final (run plain_vendor
       [Wifi_ap_init ''light'' None 6, Event WIFI_EVENT WIFI_EVENT_STA_DISCONNECTED,
        Event IP_EVENT IP_EVENT_STA_GOT_IP] boot)"

text \<open>A driver that refuses to stop smart-config and accepts every other call.\<close>

definition stop_refused :: vendor where
  "stop_refused h c = (if c = Esp_smartconfig_stop then 0xFFFFFFFF else plain_vendor h c)"

text \<open>The world right after a first \<open>wifi_ap_init\<close> that the driver accepts.\<close>

definition ap_ready :: world where
  "ap_ready = final (wifi_ap_init plain_vendor ''light'' None 6 boot)"

text \<open>
  A driver whose \<^verbatim>\<open>esp_wifi_init\<close> fails the first time it is called and that
  accepts every other call; each event group it creates has an address of its own.
\<close>

definition wifi_init_fails_once :: vendor where
  "wifi_init_fails_once h c =
     (if c = XEventGroupCreate then 0x3FFB0000 + of_nat (length h)
      else if c = Esp_wifi_init \<and> Esp_wifi_init \<notin> set h then ESP_ERR_NO_MEM
      else ESP_OK)"

text \<open>
  A driver on which the Wi-Fi stack has not been started: \<^verbatim>\<open>esp_wifi_disconnect\<close>
  answers \<^verbatim>\<open>ESP_ERR_WIFI_NOT_STARTED\<close>, every other call is accepted.
\<close>

definition not_started :: vendor where
  "not_started h c =
     (if c = XEventGroupCreate then 0x3FFB0000
      else if c = Esp_wifi_disconnect then 0x3002
      else ESP_OK)"

text \<open>A driver that refuses station mode and accepts every other call.\<close>

definition sta_mode_refused :: vendor where
  "sta_mode_refused h c =
     (if c = XEventGroupCreate then 0x3FFB0000
      else if c = Esp_wifi_set_mode WIFI_MODE_STA then 0x3001
      else ESP_OK)"

subsection \<open>Predicates the properties are stated with\<close>

text \<open>\<open>ESPTOUCH_DONE_BIT\<close> (bit 1) is clear in the event group the file holds.\<close>

definition done_clear :: "world \<Rightarrow> bool" where
  "done_clear s =
     (case group_bits s (sg_wifi_event_group s) of None \<Rightarrow> True | Some b \<Rightarrow> \<not> bit b 1)"

text \<open>The driver calls of the init block.\<close>

fun init_call :: "vendor_call \<Rightarrow> bool" where
  "init_call Esp_netif_init = True"
| "init_call XEventGroupCreate = True"
| "init_call Esp_event_loop_create_default = True"
| "init_call Esp_netif_create_default_wifi_ap = True"
| "init_call Esp_netif_create_default_wifi_sta = True"
| "init_call Esp_wifi_init = True"
| "init_call c = False"

text \<open>
  From \<open>s\<close> to \<open>s'\<close> nothing of the one-time initialization has happened again: the
  flag is set, the handle is the same, the same event groups exist, and no call of
  the init block was added.
\<close>

definition init_frozen :: "world \<Rightarrow> world \<Rightarrow> bool" where
  "init_frozen s s' =
     (sg_wifi_init_done s' \<and> sg_wifi_event_group s' = sg_wifi_event_group s \<and>
      dom (event_groups s') = dom (event_groups s) \<and>
      filter init_call (calls s') = filter init_call (calls s))"

definition final_unit :: "(fault \<times> world) + world \<Rightarrow> world" where
  "final_unit r = (case r of Inl (e, w) \<Rightarrow> w | Inr w \<Rightarrow> w)"

text \<open>Once the init block has been completed the event group of the file exists.\<close>

definition group_ready :: "world \<Rightarrow> bool" where
  "group_ready s =
     (if sg_wifi_init_done s then group_bits s (sg_wifi_event_group s) \<noteq> None else True)"

text \<open>
  Everything of a world but the two function-level statics; \<open>observe\<close> is a result
  with its world seen that way, \<open>restatic\<close> replaces the two statics.
\<close>

type_synonym view =
  "EventGroupHandle_t \<times> bool \<times> bool \<times> (EventGroupHandle_t \<rightharpoonup> EventBits_t) \<times>
     (esp_event_base_t \<times> id_filter \<times> handler) list \<times> vendor_call list"

definition module_view :: "world \<Rightarrow> view" where
  "module_view s =
     (sg_wifi_event_group s, sg_wifi_init_done s, sg_wifi_sta_connected s, event_groups s,
      handlers s, calls s)"

definition observe :: "'a result \<Rightarrow> (fault \<times> view) + ('a \<times> view)" where
  "observe r =
     (case r of Inl (e, s) \<Rightarrow> Inl (e, module_view s) | Inr (x, s) \<Rightarrow> Inr (x, module_view s))"

definition observe_unit :: "(fault \<times> world) + world \<Rightarrow> (fault \<times> view) + view" where
  "observe_unit r =
     (case r of Inl (e, s) \<Rightarrow> Inl (e, module_view s) | Inr s \<Rightarrow> Inr (module_view s))"

definition restatic :: "wifi_config_t \<Rightarrow> wifi_config_t \<Rightarrow> world \<Rightarrow> world" where
  "restatic x y s = s\<lparr>router_wifi_config_apsta := x, router_wifi_config_sta := y\<rparr>"

text \<open>
  The driver calls whose status a function tests and returns, and the status a
  function returns for the calls it made: that of the first such call that failed,
  \<open>ESP_ERR_NO_MEM\<close> when no event group could be created, \<open>ESP_OK\<close> otherwise.
\<close>

fun status_returned :: "vendor_call \<Rightarrow> bool" where
  "status_returned Esp_wifi_init = True"
| "status_returned (Esp_wifi_set_storage st) = True"
| "status_returned (Esp_wifi_set_mode m) = True"
| "status_returned (Esp_wifi_set_config i c) = True"
| "status_returned Esp_wifi_connect = True"
| "status_returned (Esp_smartconfig_set_type t) = True"
| "status_returned Esp_smartconfig_stop = True"
| "status_returned Esp_wifi_start = True"
| "status_returned c = False"

fun first_failure :: "vendor \<Rightarrow> vendor_call list \<Rightarrow> vendor_call list \<Rightarrow> esp_err_t" where
  "first_failure V h [] = ESP_OK"
| "first_failure V h (c # cs) =
     (if c = XEventGroupCreate \<and> V h c = NULL then ESP_ERR_NO_MEM
      else if status_returned c \<and> V h c \<noteq> ESP_OK then V h c
      else first_failure V (h @ [c]) cs)"

fun forwarding :: "action \<Rightarrow> bool" where
  "forwarding (Wifi_ap_init ssid psw ch) = True"
| "forwarding Wifi_sta_init = True"
| "forwarding (Wifi_ap_sta_connect ssid psw) = True"
| "forwarding (Wifi_sta_connect ssid psw) = True"
| "forwarding Wifi_start_smartconfig = True"
| "forwarding Wifi_stop_smartconfig = True"
| "forwarding Wifi_start_running = True"
| "forwarding a = False"

definition new_calls :: "world \<Rightarrow> world \<Rightarrow> vendor_call list" where
  "new_calls s s' = drop (length (calls s)) (calls s')"




section \<open>Properties\<close>

subsection \<open>The event bits\<close>

lemma and_bit0: "(b AND CONNECTED_BIT \<noteq> 0) = bit b 0" for b :: "32 word"
  using bit_iff_and_push_bit_not_eq_0 [of b 0] by (simp add: CONNECTED_BIT_def)

lemma and_bit1: "(b AND ESPTOUCH_DONE_BIT \<noteq> 0) = bit b 1" for b :: "32 word"
  using bit_iff_and_push_bit_not_eq_0 [of b 1] by (simp add: ESPTOUCH_DONE_BIT_def)

lemma and_bit2: "(b AND STA_DISCONNECTED_BIT \<noteq> 0) = bit b 2" for b :: "32 word"
  using bit_iff_and_push_bit_not_eq_0 [of b 2] by (simp add: STA_DISCONNECTED_BIT_def)

lemma bit_CONNECTED_BIT: "bit CONNECTED_BIT n = (n = 0)"
  by (simp add: CONNECTED_BIT_def bit_1_iff)

lemma bit_ESPTOUCH_DONE_BIT: "bit ESPTOUCH_DONE_BIT n = (n = 1)"
proof -
  have e: "ESPTOUCH_DONE_BIT = 2 ^ 1" by (simp add: ESPTOUCH_DONE_BIT_def)
  show ?thesis unfolding e bit_exp_iff by auto
qed

lemma bit_STA_DISCONNECTED_BIT: "bit STA_DISCONNECTED_BIT n = (n = 2)"
proof -
  have e: "STA_DISCONNECTED_BIT = 2 ^ 2" by (simp add: STA_DISCONNECTED_BIT_def)
  show ?thesis unfolding e bit_exp_iff by auto
qed

lemma bit_all_event_bits: "bit all_event_bits n = (n \<le> 2)"
  by (auto simp add: all_event_bits_def bit_or_iff bit_CONNECTED_BIT bit_ESPTOUCH_DONE_BIT
      bit_STA_DISCONNECTED_BIT)

lemma and_all_event_bits:
  "(b AND all_event_bits \<noteq> 0) = (bit b 0 \<or> bit b 1 \<or> bit b 2)" for b :: "32 word"
proof -
  have "(b AND all_event_bits \<noteq> 0) =
        (b AND CONNECTED_BIT \<noteq> 0 \<or> b AND ESPTOUCH_DONE_BIT \<noteq> 0 \<or> b AND STA_DISCONNECTED_BIT \<noteq> 0)"
    by (simp add: all_event_bits_def bit.conj_disj_distrib or_eq_0_iff)
  then show ?thesis
    by (simp only: and_bit0 and_bit1 and_bit2)
qed

lemma bit_cleared: "bit (b AND NOT all_event_bits) n = (bit b n \<and> 2 < n)" for b :: "32 word"
  by (auto simp add: bit_and_iff bit_not_iff bit_all_event_bits dest: bit_imp_le_length)

lemmas model_defs =
  ESP_OK_def ESP_ERR_NO_MEM_def NULL_def NUL_def zero_wifi_config_def strncpy_def strcpy_def
  boot_def vcall_def xEventGroupCreate_def group_bits_def xEventGroupClearBits_def
  xEventGroupSetBits_def xEventGroupWaitBits_def add_handler_def
  esp_event_handler_register_def is_wifi_sta_connected_def wifi_event_handler_new_def ip_event_handler_def
  wifi_init_block_def ap_wifi_config_def wifi_ap_init_def
  wifi_ap_sta_connect_def wifi_sta_connect_def wifi_stop_softap_def wifi_sta_init_def
  wifi_start_smartconfig_def wifi_stop_smartconfig_def wifi_wait_event_def
  wifi_start_running_def esp_event_post_def returning_def final_def plain_vendor_def
  all_event_bits_def CONNECTED_BIT_def ESPTOUCH_DONE_BIT_def STA_DISCONNECTED_BIT_def

text \<open>
  C1. Whatever bits \<open>b\<close> are pending in the event group of the file,
  \<open>wifi_wait_event\<close> returns one of four codes, by fixed priority: connected when bit 0 (\<open>CONNECTED_BIT\<close>) is set; else
  disconnected when bit 2 (\<open>STA_DISCONNECTED_BIT\<close>) is set; else smart-config stop
  when bit 1 (\<open>ESPTOUCH_DONE_BIT\<close>) is set; else timeout. It clears the three bits
  when one of them was set.
\<close>

theorem wifi_wait_event_priority:
  assumes "group_bits s (sg_wifi_event_group s) = Some b"
  shows "wifi_wait_event timeout_ms s =
    Inr (if bit b 0 then EVENT_WIFI_CONNECTED
         else if bit b 2 then EVENT_WIFI_DISCONNECTED
         else if bit b 1 then EVENT_SMARTCONFIG_STOP
         else EVENT_WAIT_TIMEOUT,
         if bit b 0 \<or> bit b 1 \<or> bit b 2
         then s\<lparr>event_groups :=
                  (event_groups s)(sg_wifi_event_group s \<mapsto> b AND NOT all_event_bits)\<rparr>
         else s)"
  using assms
  by (simp add: wifi_wait_event_def xEventGroupWaitBits_def and_bit0 and_bit1 and_bit2
      and_all_event_bits)

theorem wifi_wait_event_priority_witness:
  "group_bits flapped (sg_wifi_event_group flapped) = Some 5 \<and>
   (\<exists>s'. wifi_wait_event 1000 flapped = Inr (EVENT_WIFI_CONNECTED, s'))"
proof -
  have h: "group_bits flapped (sg_wifi_event_group flapped) = Some 5"
    by (simp add: flapped_def model_defs)
  have "bit (5 :: 32 word) 0"
    by simp
  with wifi_wait_event_priority [OF h, of 1000] h show ?thesis
    by simp
qed

text \<open>
  C5. With \<open>b\<close> the bits of the event group of the file: on the
  station-disconnected event the Wi-Fi handler clears \<open>CONNECTED_BIT\<close>
  (bit 0), sets \<open>STA_DISCONNECTED_BIT\<close> (bit 2), leaves \<open>ESPTOUCH_DONE_BIT\<close>
  (bit 1) as it was, and records the station as not connected; on the got-IP event the
  IP handler sets \<open>CONNECTED_BIT\<close>.
\<close>

theorem event_handlers_set_flags:
  assumes "group_bits s (sg_wifi_event_group s) = Some b"
  shows "wifi_event_handler_new V WIFI_EVENT_STA_DISCONNECTED s =
           Inr (s\<lparr>event_groups := (event_groups s)
                     (sg_wifi_event_group s \<mapsto> (b AND NOT CONNECTED_BIT) OR STA_DISCONNECTED_BIT),
                   sg_wifi_sta_connected := False\<rparr>) \<and>
         \<not> bit ((b AND NOT CONNECTED_BIT) OR STA_DISCONNECTED_BIT) 0 \<and>
         bit ((b AND NOT CONNECTED_BIT) OR STA_DISCONNECTED_BIT) 2 \<and>
         bit ((b AND NOT CONNECTED_BIT) OR STA_DISCONNECTED_BIT) 1 = bit b 1 \<and>
         ip_event_handler IP_EVENT_STA_GOT_IP s =
           Inr (s\<lparr>event_groups := (event_groups s)
                     (sg_wifi_event_group s \<mapsto> b OR CONNECTED_BIT)\<rparr>) \<and>
         bit (b OR CONNECTED_BIT) 0"
proof -
  have g: "sg_wifi_event_group s \<noteq> NULL" "event_groups s (sg_wifi_event_group s) = Some b"
    using assms by (auto simp add: group_bits_def split: if_splits)
  have 1: "wifi_event_handler_new V WIFI_EVENT_STA_DISCONNECTED s =
           Inr (s\<lparr>event_groups := (event_groups s)
                     (sg_wifi_event_group s \<mapsto> (b AND NOT CONNECTED_BIT) OR STA_DISCONNECTED_BIT),
                   sg_wifi_sta_connected := False\<rparr>)"
    using g
    by (simp add: wifi_event_handler_new_def xEventGroupClearBits_def xEventGroupSetBits_def
        group_bits_def)
  have 2: "ip_event_handler IP_EVENT_STA_GOT_IP s =
           Inr (s\<lparr>event_groups := (event_groups s)
                     (sg_wifi_event_group s \<mapsto> b OR CONNECTED_BIT)\<rparr>)"
    using g by (simp add: ip_event_handler_def xEventGroupSetBits_def group_bits_def)
  have 3: "\<not> bit ((b AND NOT CONNECTED_BIT) OR STA_DISCONNECTED_BIT) 0"
    "bit ((b AND NOT CONNECTED_BIT) OR STA_DISCONNECTED_BIT) 2"
    "bit ((b AND NOT CONNECTED_BIT) OR STA_DISCONNECTED_BIT) 1 = bit b 1"
    "bit (b OR CONNECTED_BIT) 0"
    by (simp_all add: bit_or_iff bit_and_iff bit_not_iff bit_CONNECTED_BIT
        bit_STA_DISCONNECTED_BIT)
  from 1 2 3 show ?thesis by simp
qed

theorem event_handlers_set_flags_witness:
  "group_bits flapped (sg_wifi_event_group flapped) = Some 5 \<and>
   (\<exists>s'. wifi_event_handler_new plain_vendor WIFI_EVENT_STA_DISCONNECTED flapped = Inr s' \<and>
      group_bits s' (sg_wifi_event_group s') = Some 4 \<and> \<not> sg_wifi_sta_connected s') \<and>
   (\<exists>s'. ip_event_handler IP_EVENT_STA_GOT_IP flapped = Inr s' \<and>
      group_bits s' (sg_wifi_event_group s') = Some 5)"
proof -
  have h: "group_bits flapped (sg_wifi_event_group flapped) = Some 5"
    by (simp add: flapped_def model_defs)
  have n: "sg_wifi_event_group flapped \<noteq> 0"
    by (simp add: flapped_def model_defs)
  from event_handlers_set_flags [OF h, of plain_vendor] h n show ?thesis
    by (simp add: group_bits_def NULL_def CONNECTED_BIT_def STA_DISCONNECTED_BIT_def)
qed

text \<open>
  C10. With \<open>b\<close> the bits of the event group of the file:
  \<open>wifi_stop_smartconfig\<close> clears the three event bits and returns the status of
  \<^verbatim>\<open>esp_smartconfig_stop\<close>, whatever that status is.
\<close>

theorem wifi_stop_smartconfig_clears:
  assumes "group_bits s (sg_wifi_event_group s) = Some b"
  shows "wifi_stop_smartconfig V s =
           Inr (V (calls s) Esp_smartconfig_stop,
                s\<lparr>calls := calls s @ [Esp_smartconfig_stop],
                  event_groups := (event_groups s)
                     (sg_wifi_event_group s \<mapsto> b AND NOT all_event_bits)\<rparr>) \<and>
         \<not> bit (b AND NOT all_event_bits) 0 \<and>
         \<not> bit (b AND NOT all_event_bits) 1 \<and>
         \<not> bit (b AND NOT all_event_bits) 2"
  using assms
  by (simp add: wifi_stop_smartconfig_def vcall_def xEventGroupClearBits_def group_bits_def
      bit_cleared split: if_splits)

theorem wifi_stop_smartconfig_clears_witness:
  "group_bits flapped (sg_wifi_event_group flapped) = Some 5 \<and>
   (\<exists>s'. wifi_stop_smartconfig stop_refused flapped = Inr (0xFFFFFFFF, s') \<and>
      group_bits s' (sg_wifi_event_group s') = Some 0)"
proof -
  have h: "group_bits flapped (sg_wifi_event_group flapped) = Some 5"
    by (simp add: flapped_def model_defs)
  have n: "sg_wifi_event_group flapped \<noteq> 0"
    by (simp add: flapped_def model_defs)
  from wifi_stop_smartconfig_clears [OF h, of stop_refused] h n show ?thesis
    by (simp add: group_bits_def NULL_def stop_refused_def all_event_bits_def
      CONNECTED_BIT_def ESPTOUCH_DONE_BIT_def STA_DISCONNECTED_BIT_def)
qed

subsection \<open>The station-connected flag\<close>

text \<open>
  C8. When \<open>wifi_ap_init\<close> or \<open>wifi_sta_init\<close> returns and control had reached the
  end of the init block, \<open>is_wifi_sta_connected\<close> answers false in the world it
  returns; \<open>is_wifi_sta_connected\<close> answers the stored flag and leaves the world as
  it is.
\<close>

theorem init_resets_sta_connected:
  "(wifi_init_block V s = Inr (None, s1) \<and> wifi_ap_init V ssid psw ch s = Inr (rc, s') \<longrightarrow>
      is_wifi_sta_connected s' = (False, s')) \<and>
   (wifi_init_block V s = Inr (None, s1) \<and> wifi_sta_init V s = Inr (rc, s') \<longrightarrow>
      is_wifi_sta_connected s' = (False, s')) \<and>
   is_wifi_sta_connected t = (sg_wifi_sta_connected t, t)"
proof (intro conjI impI)
  assume "wifi_init_block V s = Inr (None, s1) \<and> wifi_ap_init V ssid psw ch s = Inr (rc, s')"
  then show "is_wifi_sta_connected s' = (False, s')"
    by (auto simp add: wifi_ap_init_def is_wifi_sta_connected_def xEventGroupClearBits_def
        vcall_def esp_event_handler_register_def Let_def
        split: option.splits if_splits prod.splits sum.splits)
next
  assume "wifi_init_block V s = Inr (None, s1) \<and> wifi_sta_init V s = Inr (rc, s')"
  then show "is_wifi_sta_connected s' = (False, s')"
    by (auto simp add: wifi_sta_init_def is_wifi_sta_connected_def xEventGroupClearBits_def
        vcall_def Let_def
        split: option.splits if_splits prod.splits sum.splits)
next
  show "is_wifi_sta_connected t = (sg_wifi_sta_connected t, t)"
    by (simp add: is_wifi_sta_connected_def)
qed

theorem init_resets_sta_connected_witness:
  "\<exists>s1 rc s' s1' rc' s''.
     wifi_init_block plain_vendor (boot\<lparr>sg_wifi_sta_connected := True\<rparr>) = Inr (None, s1) \<and>
     wifi_ap_init plain_vendor ''light'' (Some ''secret'') 6 (boot\<lparr>sg_wifi_sta_connected := True\<rparr>)
       = Inr (rc, s') \<and>
     is_wifi_sta_connected s' = (False, s') \<and>
     wifi_init_block plain_vendor flapped = Inr (None, s1') \<and>
     wifi_sta_init plain_vendor flapped = Inr (rc', s'') \<and>
     is_wifi_sta_connected s'' = (False, s'')"
proof -
  obtain s1 where a: "wifi_init_block plain_vendor (boot\<lparr>sg_wifi_sta_connected := True\<rparr>) = Inr (None, s1)"
    by (simp add: model_defs)
  obtain rc s' where b: "wifi_ap_init plain_vendor ''light'' (Some ''secret'') 6
       (boot\<lparr>sg_wifi_sta_connected := True\<rparr>) = Inr (rc, s')"
    by (simp add: model_defs)
  obtain s1' where c: "wifi_init_block plain_vendor flapped = Inr (None, s1')"
    by (simp add: flapped_def model_defs)
  obtain rc' s'' where d: "wifi_sta_init plain_vendor flapped = Inr (rc', s'')"
    by (simp add: flapped_def model_defs)
  from init_resets_sta_connected [of plain_vendor "boot\<lparr>sg_wifi_sta_connected := True\<rparr>" s1
      "''light''" "Some ''secret''" 6 rc s'] a b
  have e: "is_wifi_sta_connected s' = (False, s')" by blast
  from init_resets_sta_connected [of plain_vendor flapped s1' _ _ _ rc' s''] c d
  have f: "is_wifi_sta_connected s'' = (False, s'')" by blast
  from a b c d e f show ?thesis by blast
qed

subsection \<open>The smart-config bit is never set\<close>

lemmas bit1_simps = bit_all_event_bits bit_ESPTOUCH_DONE_BIT bit_or_iff bit_and_iff bit_not_iff bit_CONNECTED_BIT
  bit_STA_DISCONNECTED_BIT and_bit1

lemma done_clear_wifi_ap_init:
  "wifi_ap_init V ssid psw ch s = Inr (rc, s') \<Longrightarrow> done_clear s'"
  by (auto simp add: wifi_ap_init_def wifi_init_block_def done_clear_def group_bits_def vcall_def
      xEventGroupCreate_def xEventGroupClearBits_def esp_event_handler_register_def
      Let_def NULL_def bit1_simps
      split: option.splits if_splits prod.splits sum.splits)

lemma done_clear_wifi_sta_init:
  "wifi_sta_init V s = Inr (rc, s') \<Longrightarrow> done_clear s'"
  by (auto simp add: wifi_sta_init_def wifi_init_block_def done_clear_def group_bits_def vcall_def
      xEventGroupCreate_def xEventGroupClearBits_def
      Let_def NULL_def bit1_simps
      split: option.splits if_splits prod.splits sum.splits)

lemma done_clear_run_handler:
  "done_clear s \<Longrightarrow> run_handler V h ev s = Inr s' \<Longrightarrow> done_clear s'"
  by (cases h; cases ev)
    (auto simp add: ip_event_handler_def wifi_event_handler_new_def done_clear_def group_bits_def
      vcall_def xEventGroupClearBits_def xEventGroupSetBits_def NULL_def bit1_simps
      split: option.splits if_splits)

lemma done_clear_dispatch:
  "done_clear s \<Longrightarrow> dispatch V base ev rs s = Inr s' \<Longrightarrow> done_clear s'"
proof (induction rs arbitrary: s)
  case Nil
  then show ?case by simp
next
  case (Cons r rs)
  obtain b f h where r: "r = (b, f, h)" by (cases r)
  show ?case
  proof (cases "b = base \<and> (f = ESP_EVENT_ANY_ID \<or> f = Only_id ev)")
    case True
    with Cons.prems r obtain s1 where "run_handler V h ev s = Inr s1"
      and "dispatch V base ev rs s1 = Inr s'"
      by (auto split: sum.splits)
    with Cons.prems(1) Cons.IH show ?thesis
      by (blast dest: done_clear_run_handler)
  next
    case False
    with Cons r show ?thesis by auto
  qed
qed

lemma done_clear_step:
  assumes "done_clear s" and "step V a s = Inr (out, s')"
  shows "done_clear s' \<and> out \<noteq> Waited EVENT_SMARTCONFIG_STOP"
proof (cases a)
  case (Wifi_ap_init ssid psw ch)
  with assms show ?thesis
    by (auto simp add: returning_def dest: done_clear_wifi_ap_init split: sum.splits)
next
  case Wifi_sta_init
  with assms show ?thesis
    by (auto simp add: returning_def dest: done_clear_wifi_sta_init split: sum.splits)
next
  case (Wifi_ap_sta_connect ssid psw)
  with assms show ?thesis
    by (auto simp add: returning_def wifi_ap_sta_connect_def vcall_def done_clear_def
        group_bits_def Let_def split: sum.splits if_splits)
next
  case (Wifi_sta_connect ssid psw)
  with assms show ?thesis
    by (auto simp add: returning_def wifi_sta_connect_def vcall_def done_clear_def
        group_bits_def Let_def split: sum.splits if_splits)
next
  case Wifi_stop_softap
  with assms show ?thesis
    by (auto simp add: returning_def wifi_stop_softap_def vcall_def done_clear_def
        group_bits_def Let_def split: sum.splits if_splits)
next
  case Wifi_start_smartconfig
  with assms show ?thesis
    by (auto simp add: returning_def wifi_start_smartconfig_def vcall_def done_clear_def
        group_bits_def Let_def split: sum.splits if_splits)
next
  case Wifi_stop_smartconfig
  with assms show ?thesis
    by (auto simp add: returning_def wifi_stop_smartconfig_def vcall_def done_clear_def
        xEventGroupClearBits_def group_bits_def Let_def bit1_simps
        split: sum.splits if_splits option.splits)
next
  case (Wifi_wait_event t)
  with assms show ?thesis
    by (auto simp add: returning_def wifi_wait_event_def xEventGroupWaitBits_def done_clear_def
        group_bits_def Let_def bit1_simps
        split: sum.splits if_splits option.splits)
next
  case Wifi_start_running
  with assms show ?thesis
    by (auto simp add: returning_def wifi_start_running_def vcall_def done_clear_def
        group_bits_def Let_def split: sum.splits if_splits)
next
  case Is_wifi_sta_connected
  with assms show ?thesis
    by (auto simp add: returning_def is_wifi_sta_connected_def)
next
  case (Event base ev)
  with assms show ?thesis
    by (auto simp add: esp_event_post_def dest: done_clear_dispatch split: sum.splits)
qed

lemma done_clear_run:
  "done_clear s \<Longrightarrow> run V acts s = Inr (outs, s') \<Longrightarrow>
   done_clear s' \<and> Waited EVENT_SMARTCONFIG_STOP \<notin> set outs"
proof (induction acts arbitrary: s outs)
  case Nil
  then show ?case by simp
next
  case (Cons a acts)
  from Cons.prems(2) obtain out s1 outs1 where st: "step V a s = Inr (out, s1)"
    and rn: "run V acts s1 = Inr (outs1, s')" and o: "outs = out # outs1"
    by (auto split: sum.splits)
  from done_clear_step [OF Cons.prems(1) st] have "done_clear s1"
    and "out \<noteq> Waited EVENT_SMARTCONFIG_STOP" by simp_all
  with Cons.IH [OF _ rn] o show ?case by auto
qed

text \<open>
  C9. Nothing in the file sets \<open>ESPTOUCH_DONE_BIT\<close>: once \<open>wifi_ap_init\<close> or
  \<open>wifi_sta_init\<close> has returned, no \<open>wifi_wait_event\<close> in any sequence of calls
  and delivered events returns \<open>EVENT_SMARTCONFIG_STOP\<close>, whatever the driver
  answers.
\<close>

theorem never_smartconfig_stop:
  assumes "wifi_ap_init V ssid psw ch s0 = Inr (rc, s) \<or> wifi_sta_init V s0 = Inr (rc, s)"
    and "run V acts s = Inr (outs, s')"
  shows "Waited EVENT_SMARTCONFIG_STOP \<notin> set outs"
proof -
  from assms(1) have "done_clear s"
    by (auto dest: done_clear_wifi_ap_init done_clear_wifi_sta_init)
  with assms(2) show ?thesis
    by (blast dest: done_clear_run)
qed

theorem never_smartconfig_stop_witness:
  "wifi_ap_init plain_vendor ''light'' None 6 boot = Inr (ESP_OK, ap_ready) \<and>
   (\<exists>s'. run plain_vendor
      [Wifi_start_smartconfig, Event WIFI_EVENT WIFI_EVENT_STA_DISCONNECTED,
       Wifi_wait_event 1000, Wifi_wait_event 1000] ap_ready =
      Inr ([Status ESP_OK, Delivered, Waited EVENT_WIFI_DISCONNECTED,
            Waited EVENT_WAIT_TIMEOUT], s')) \<and>
   Waited EVENT_SMARTCONFIG_STOP \<notin>
     set [Status ESP_OK, Delivered, Waited EVENT_WIFI_DISCONNECTED, Waited EVENT_WAIT_TIMEOUT]"
proof -
  have a: "wifi_ap_init plain_vendor ''light'' None 6 boot = Inr (ESP_OK, ap_ready)"
    by (simp add: ap_ready_def model_defs)
  obtain s' where b: "run plain_vendor
      [Wifi_start_smartconfig, Event WIFI_EVENT WIFI_EVENT_STA_DISCONNECTED,
       Wifi_wait_event 1000, Wifi_wait_event 1000] ap_ready =
      Inr ([Status ESP_OK, Delivered, Waited EVENT_WIFI_DISCONNECTED,
            Waited EVENT_WAIT_TIMEOUT], s')"
    by (simp add: ap_ready_def model_defs)
  from never_smartconfig_stop [OF disjI1 [OF a] b] a b show ?thesis
    by blast
qed

subsection \<open>One-time initialization\<close>

lemma init_frozen_refl: "sg_wifi_init_done s \<Longrightarrow> init_frozen s s"
  by (simp add: init_frozen_def)

lemma init_frozen_trans: "init_frozen s t \<Longrightarrow> init_frozen t u \<Longrightarrow> init_frozen s u"
  by (simp add: init_frozen_def)

lemma init_frozen_done: "init_frozen s t \<Longrightarrow> sg_wifi_init_done t"
  by (simp add: init_frozen_def)

lemma dom_upd_same: "m h = Some b \<Longrightarrow> dom (m(h \<mapsto> c)) = dom m"
  by auto

lemma frozen_wifi_ap_init:
  "sg_wifi_init_done s \<Longrightarrow> init_frozen s (final (wifi_ap_init V ssid psw ch s))"
  by (auto simp add: wifi_ap_init_def wifi_init_block_def init_frozen_def final_def
      group_bits_def vcall_def xEventGroupClearBits_def esp_event_handler_register_def
      Let_def dom_upd_same
      split: option.splits if_splits prod.splits sum.splits)

lemma frozen_wifi_sta_init:
  "sg_wifi_init_done s \<Longrightarrow> init_frozen s (final (wifi_sta_init V s))"
  by (auto simp add: wifi_sta_init_def wifi_init_block_def init_frozen_def final_def
      group_bits_def vcall_def xEventGroupClearBits_def
      Let_def dom_upd_same
      split: option.splits if_splits prod.splits sum.splits)

lemma frozen_run_handler:
  "sg_wifi_init_done s \<Longrightarrow> init_frozen s (final_unit (run_handler V h ev s))"
  by (cases h; cases ev)
    (auto simp add: ip_event_handler_def wifi_event_handler_new_def init_frozen_def final_unit_def
      group_bits_def vcall_def xEventGroupClearBits_def xEventGroupSetBits_def dom_upd_same
      split: option.splits if_splits)

lemma frozen_dispatch:
  "sg_wifi_init_done s \<Longrightarrow> init_frozen s (final_unit (dispatch V base ev rs s))"
proof (induction rs arbitrary: s)
  case Nil
  then show ?case by (simp add: final_unit_def init_frozen_refl)
next
  case (Cons r rs)
  obtain b f h where r: "r = (b, f, h)" by (cases r)
  show ?case
  proof (cases "b = base \<and> (f = ESP_EVENT_ANY_ID \<or> f = Only_id ev)")
    case True
    note fr = frozen_run_handler [OF Cons.prems, of V h ev]
    show ?thesis
    proof (cases "run_handler V h ev s")
      case (Inl e)
      with True r fr show ?thesis by (simp add: final_unit_def)
    next
      case (Inr s1)
      with fr have f1: "init_frozen s s1" by (simp add: final_unit_def)
      from Cons.IH [OF init_frozen_done [OF f1]] f1 True r Inr show ?thesis
        by (auto intro: init_frozen_trans)
    qed
  next
    case False
    with Cons r show ?thesis by auto
  qed
qed

lemma frozen_step:
  assumes "sg_wifi_init_done s"
  shows "init_frozen s (final (step V a s))"
proof (cases a)
  case (Wifi_ap_init ssid psw ch)
  with frozen_wifi_ap_init [OF assms, of V ssid psw ch] show ?thesis
    by (auto simp add: returning_def final_def split: sum.splits)
next
  case Wifi_sta_init
  with frozen_wifi_sta_init [OF assms, of V] show ?thesis
    by (auto simp add: returning_def final_def split: sum.splits)
next
  case (Wifi_ap_sta_connect ssid psw)
  with assms show ?thesis
    by (auto simp add: returning_def wifi_ap_sta_connect_def vcall_def init_frozen_def
        final_def Let_def split: sum.splits if_splits)
next
  case (Wifi_sta_connect ssid psw)
  with assms show ?thesis
    by (auto simp add: returning_def wifi_sta_connect_def vcall_def init_frozen_def
        final_def Let_def split: sum.splits if_splits)
next
  case Wifi_stop_softap
  with assms show ?thesis
    by (auto simp add: returning_def wifi_stop_softap_def vcall_def init_frozen_def
        final_def Let_def split: sum.splits if_splits)
next
  case Wifi_start_smartconfig
  with assms show ?thesis
    by (auto simp add: returning_def wifi_start_smartconfig_def vcall_def init_frozen_def
        final_def Let_def split: sum.splits if_splits)
next
  case Wifi_stop_smartconfig
  with assms show ?thesis
    by (auto simp add: returning_def wifi_stop_smartconfig_def vcall_def init_frozen_def
        xEventGroupClearBits_def group_bits_def final_def Let_def dom_upd_same
        split: sum.splits if_splits option.splits)
next
  case (Wifi_wait_event t)
  with assms show ?thesis
    by (auto simp add: returning_def wifi_wait_event_def xEventGroupWaitBits_def init_frozen_def
        group_bits_def final_def Let_def dom_upd_same
        split: sum.splits if_splits option.splits)
next
  case Wifi_start_running
  with assms show ?thesis
    by (auto simp add: returning_def wifi_start_running_def vcall_def init_frozen_def
        final_def Let_def split: sum.splits if_splits)
next
  case Is_wifi_sta_connected
  with assms show ?thesis
    by (auto simp add: returning_def is_wifi_sta_connected_def init_frozen_def final_def)
next
  case (Event base ev)
  with frozen_dispatch [OF assms, of V base ev "handlers s"] show ?thesis
    by (auto simp add: esp_event_post_def final_def final_unit_def split: sum.splits)
qed

lemma frozen_run:
  "sg_wifi_init_done s \<Longrightarrow> init_frozen s (final (run V acts s))"
proof (induction acts arbitrary: s)
  case Nil
  then show ?case by (simp add: final_def init_frozen_refl)
next
  case (Cons a acts)
  note fs = frozen_step [OF Cons.prems, of V a]
  show ?case
  proof (cases "step V a s")
    case (Inl e)
    with fs show ?thesis by (simp add: final_def)
  next
    case (Inr p)
    obtain out s1 where p: "p = (out, s1)" by (cases p)
    with fs Inr have f1: "init_frozen s s1" by (simp add: final_def)
    from Cons.IH [OF init_frozen_done [OF f1]] have "init_frozen s1 (final (run V acts s1))" .
    with f1 have "init_frozen s (final (run V acts s1))" by (rule init_frozen_trans)
    moreover have "final (run V (a # acts) s) = final (run V acts s1)"
      using Inr p by (auto simp add: final_def split: sum.splits)
    ultimately show ?thesis by simp
  qed
qed

text \<open>
  C2. The init block is gated by \<open>sg_wifi_init_done\<close>: once the
  flag is set, no sequence of calls and events runs the block again. The flag stays
  set, the event-group handle stays the same, no event group is created, and no
  driver call of the block is made.
\<close>

theorem init_block_runs_once:
  assumes "sg_wifi_init_done s"
  shows "sg_wifi_init_done (final (run V acts s)) \<and>
         sg_wifi_event_group (final (run V acts s)) = sg_wifi_event_group s \<and>
         dom (event_groups (final (run V acts s))) = dom (event_groups s) \<and>
         filter init_call (calls (final (run V acts s))) = filter init_call (calls s)"
  using frozen_run [OF assms, of V acts] by (simp add: init_frozen_def)

theorem init_block_runs_once_witness:
  "sg_wifi_init_done flapped \<and>
   sg_wifi_init_done
     (final (run plain_vendor [Wifi_sta_init, Wifi_ap_init ''lamp'' None 1] flapped)) \<and>
   sg_wifi_event_group
     (final (run plain_vendor [Wifi_sta_init, Wifi_ap_init ''lamp'' None 1] flapped)) =
     sg_wifi_event_group flapped \<and>
   dom (event_groups
     (final (run plain_vendor [Wifi_sta_init, Wifi_ap_init ''lamp'' None 1] flapped))) =
     dom (event_groups flapped) \<and>
   filter init_call (calls
     (final (run plain_vendor [Wifi_sta_init, Wifi_ap_init ''lamp'' None 1] flapped))) =
     filter init_call (calls flapped)"
proof -
  have h: "sg_wifi_init_done flapped"
    by (simp add: flapped_def model_defs)
  from init_block_runs_once [OF h, of plain_vendor "[Wifi_sta_init, Wifi_ap_init ''lamp'' None 1]"] h
  show ?thesis
    by blast
qed

text \<open>
  C2, while the flag is clear: the event group is not created at most once. When
  \<^verbatim>\<open>esp_wifi_init\<close> fails in the first call the flag stays clear, and the second
  call creates a second event group.
\<close>

theorem event_group_created_twice:
  "count_list (calls (final (run wifi_init_fails_once [Wifi_sta_init, Wifi_sta_init] boot)))
     XEventGroupCreate = 2 \<and>
   sg_wifi_init_done (final (run wifi_init_fails_once [Wifi_sta_init, Wifi_sta_init] boot)) \<and>
   sg_wifi_event_group (final (run wifi_init_fails_once [Wifi_sta_init] boot)) = 0x3FFB0001 \<and>
   sg_wifi_event_group (final (run wifi_init_fails_once [Wifi_sta_init, Wifi_sta_init] boot)) =
     0x3FFB0007"
  by (simp add: model_defs wifi_init_fails_once_def)

subsection \<open>The event group exists once initialization is done\<close>

text \<open>
  The properties of the event bits suppose that the event group exists. It does in
  every world reached from \<open>boot\<close> in which the init block has been completed,
  whatever the driver answers.
\<close>

lemma group_ready_frozen:
  assumes "sg_wifi_init_done s" and "group_ready s" and "init_frozen s s'"
  shows "group_ready s'"
proof -
  from assms(3) have d: "sg_wifi_init_done s'"
    and h: "sg_wifi_event_group s' = sg_wifi_event_group s"
    and m: "dom (event_groups s') = dom (event_groups s)"
    by (simp_all add: init_frozen_def)
  from assms(1,2) obtain b where n: "sg_wifi_event_group s \<noteq> NULL"
    and "event_groups s (sg_wifi_event_group s) = Some b"
    by (auto simp add: group_ready_def group_bits_def split: if_splits)
  then have "sg_wifi_event_group s \<in> dom (event_groups s')"
    using m by auto
  with n h d show ?thesis
    by (auto simp add: group_ready_def group_bits_def)
qed

lemma group_ready_wifi_ap_init:
  "\<not> sg_wifi_init_done s \<Longrightarrow> group_ready (final (wifi_ap_init V ssid psw ch s))"
  by (auto simp add: wifi_ap_init_def wifi_init_block_def group_ready_def final_def
      group_bits_def vcall_def xEventGroupCreate_def xEventGroupClearBits_def
      esp_event_handler_register_def Let_def
      split: option.splits if_splits prod.splits sum.splits)

lemma group_ready_wifi_sta_init:
  "\<not> sg_wifi_init_done s \<Longrightarrow> group_ready (final (wifi_sta_init V s))"
  by (auto simp add: wifi_sta_init_def wifi_init_block_def group_ready_def final_def
      group_bits_def vcall_def xEventGroupCreate_def xEventGroupClearBits_def Let_def
      split: option.splits if_splits prod.splits sum.splits)

lemma init_done_run_handler:
  "sg_wifi_init_done (final_unit (run_handler V h ev s)) = sg_wifi_init_done s"
  by (cases h; cases ev)
    (auto simp add: ip_event_handler_def wifi_event_handler_new_def final_unit_def
      vcall_def xEventGroupClearBits_def xEventGroupSetBits_def
      split: option.splits if_splits)

lemma init_done_dispatch:
  "sg_wifi_init_done (final_unit (dispatch V base ev rs s)) = sg_wifi_init_done s"
proof (induction rs arbitrary: s)
  case Nil
  then show ?case by (simp add: final_unit_def)
next
  case (Cons r rs)
  obtain b f h where r: "r = (b, f, h)" by (cases r)
  show ?case
  proof (cases "b = base \<and> (f = ESP_EVENT_ANY_ID \<or> f = Only_id ev)")
    case True
    note rh = init_done_run_handler [of V h ev s]
    show ?thesis
    proof (cases "run_handler V h ev s")
      case (Inl e)
      with True r rh show ?thesis by (simp add: final_unit_def)
    next
      case (Inr s1)
      with rh have "sg_wifi_init_done s1 = sg_wifi_init_done s" by (simp add: final_unit_def)
      with Cons.IH [of s1] True r Inr show ?thesis by simp
    qed
  next
    case False
    with Cons.IH [of s] r show ?thesis by auto
  qed
qed

lemma group_ready_step:
  assumes "group_ready s"
  shows "group_ready (final (step V a s))"
proof (cases "sg_wifi_init_done s")
  case True
  from group_ready_frozen [OF True assms frozen_step [OF True]] show ?thesis .
next
  case False
  show ?thesis
  proof (cases a)
    case (Wifi_ap_init ssid psw ch)
    with group_ready_wifi_ap_init [OF False, of V ssid psw ch] show ?thesis
      by (auto simp add: returning_def final_def split: sum.splits)
  next
    case Wifi_sta_init
    with group_ready_wifi_sta_init [OF False, of V] show ?thesis
      by (auto simp add: returning_def final_def split: sum.splits)
  next
    case (Wifi_ap_sta_connect ssid psw)
    with False show ?thesis
      by (auto simp add: returning_def wifi_ap_sta_connect_def vcall_def group_ready_def
          final_def Let_def split: sum.splits if_splits)
  next
    case (Wifi_sta_connect ssid psw)
    with False show ?thesis
      by (auto simp add: returning_def wifi_sta_connect_def vcall_def group_ready_def
          final_def Let_def split: sum.splits if_splits)
  next
    case Wifi_stop_softap
    with False show ?thesis
      by (auto simp add: returning_def wifi_stop_softap_def vcall_def group_ready_def
          final_def Let_def split: sum.splits if_splits)
  next
    case Wifi_start_smartconfig
    with False show ?thesis
      by (auto simp add: returning_def wifi_start_smartconfig_def vcall_def group_ready_def
          final_def Let_def split: sum.splits if_splits)
  next
    case Wifi_stop_smartconfig
    with False show ?thesis
      by (auto simp add: returning_def wifi_stop_smartconfig_def vcall_def group_ready_def
          xEventGroupClearBits_def final_def Let_def
          split: sum.splits if_splits option.splits)
  next
    case (Wifi_wait_event t)
    with False show ?thesis
      by (auto simp add: returning_def wifi_wait_event_def xEventGroupWaitBits_def
          group_ready_def final_def Let_def
          split: sum.splits if_splits option.splits)
  next
    case Wifi_start_running
    with False show ?thesis
      by (auto simp add: returning_def wifi_start_running_def vcall_def group_ready_def
          final_def Let_def split: sum.splits if_splits)
  next
    case Is_wifi_sta_connected
    with False show ?thesis
      by (auto simp add: returning_def is_wifi_sta_connected_def group_ready_def final_def)
  next
    case (Event base ev)
    with init_done_dispatch [of V base ev "handlers s" s] False show ?thesis
      by (auto simp add: esp_event_post_def final_def final_unit_def group_ready_def
          split: sum.splits)
  qed
qed

lemma group_ready_run: "group_ready s \<Longrightarrow> group_ready (final (run V acts s))"
proof (induction acts arbitrary: s)
  case Nil
  then show ?case by (simp add: final_def)
next
  case (Cons a acts)
  note gs = group_ready_step [OF Cons.prems, of V a]
  show ?case
  proof (cases "step V a s")
    case (Inl e)
    with gs show ?thesis by (simp add: final_def)
  next
    case (Inr p)
    obtain out s1 where p: "p = (out, s1)" by (cases p)
    with gs Inr have "group_ready s1" by (simp add: final_def)
    from Cons.IH [OF this] have "group_ready (final (run V acts s1))" .
    moreover have "final (run V (a # acts) s) = final (run V acts s1)"
      using Inr p by (auto simp add: final_def split: sum.splits)
    ultimately show ?thesis by simp
  qed
qed

lemma event_group_exists_after_init:
  "sg_wifi_init_done (final (run V acts boot)) \<Longrightarrow>
   \<exists>b. group_bits (final (run V acts boot)) (sg_wifi_event_group (final (run V acts boot))) = Some b"
proof -
  have "group_ready boot" by (simp add: group_ready_def boot_def)
  from group_ready_run [OF this, of V acts] show
    "sg_wifi_init_done (final (run V acts boot)) \<Longrightarrow> ?thesis"
    by (auto simp add: group_ready_def)
qed

subsection \<open>The state that lasts from call to call\<close>

lemma view_eqD:
  "module_view s = module_view t \<Longrightarrow>
   t = s\<lparr>router_wifi_config_apsta := router_wifi_config_apsta t,
         router_wifi_config_sta := router_wifi_config_sta t\<rparr>"
  by (cases s, cases t) (simp add: module_view_def)

lemma view_run_handler:
  "observe_unit (run_handler V h ev (s\<lparr>router_wifi_config_apsta := x, router_wifi_config_sta := y\<rparr>))
   = observe_unit (run_handler V h ev s)"
  by (cases h; cases ev)
    (auto simp add: ip_event_handler_def wifi_event_handler_new_def observe_unit_def
      module_view_def group_bits_def vcall_def xEventGroupClearBits_def xEventGroupSetBits_def
      split: option.splits if_splits)

lemma view_run_handler':
  assumes "module_view s = module_view t"
  shows "observe_unit (run_handler V h ev s) = observe_unit (run_handler V h ev t)"
  by (subst view_eqD [OF assms]) (rule view_run_handler [symmetric])

lemma observe_unit_Inl:
  assumes "observe_unit r = observe_unit r'" and "r = Inl (e, w)"
  shows "\<exists>w'. r' = Inl (e, w') \<and> module_view w = module_view w'"
proof (cases r')
  case (Inl p)
  obtain e' w' where "p = (e', w')" by (cases p)
  with assms Inl show ?thesis by (simp add: observe_unit_def)
next
  case (Inr w')
  with assms show ?thesis by (simp add: observe_unit_def)
qed

lemma observe_unit_Inr:
  assumes "observe_unit r = observe_unit r'" and "r = Inr w"
  shows "\<exists>w'. r' = Inr w' \<and> module_view w = module_view w'"
proof (cases r')
  case (Inl p)
  obtain e' w' where "p = (e', w')" by (cases p)
  with assms Inl show ?thesis by (simp add: observe_unit_def)
next
  case (Inr w')
  with assms show ?thesis by (simp add: observe_unit_def)
qed

lemma view_dispatch:
  "module_view s = module_view t \<Longrightarrow>
   observe_unit (dispatch V base ev rs s) = observe_unit (dispatch V base ev rs t)"
proof (induction rs arbitrary: s t)
  case Nil
  then show ?case by (simp add: observe_unit_def)
next
  case (Cons r rs)
  obtain b f h where r: "r = (b, f, h)" by (cases r)
  show ?case
  proof (cases "b = base \<and> (f = ESP_EVENT_ANY_ID \<or> f = Only_id ev)")
    case True
    note hd = view_run_handler' [OF Cons.prems, of V h ev]
    show ?thesis
    proof (cases "run_handler V h ev s")
      case (Inl p)
      obtain e w where p: "p = (e, w)" by (cases p)
      from observe_unit_Inl [OF hd] Inl p obtain w' where
        "run_handler V h ev t = Inl (e, w')" and "module_view w = module_view w'" by blast
      with Inl p True r show ?thesis
        by (simp add: observe_unit_def)
    next
      case (Inr s1)
      from observe_unit_Inr [OF hd Inr] obtain t1 where
        t1: "run_handler V h ev t = Inr t1" "module_view s1 = module_view t1" by blast
      from Cons.IH [OF t1(2)] True r Inr t1(1) show ?thesis by simp
    qed
  next
    case False
    with Cons.IH [OF Cons.prems] r show ?thesis by auto
  qed
qed

lemma restatic_sel [simp]:
  "sg_wifi_event_group (restatic x y s) = sg_wifi_event_group s"
  "sg_wifi_init_done (restatic x y s) = sg_wifi_init_done s"
  "module_view (restatic x y s) = module_view s"
  by (simp_all add: restatic_def module_view_def)

lemma restatic_upd:
  "(restatic x y s)\<lparr>sg_wifi_event_group := h\<rparr> = restatic x y (s\<lparr>sg_wifi_event_group := h\<rparr>)"
  "(restatic x y s)\<lparr>sg_wifi_init_done := d\<rparr> = restatic x y (s\<lparr>sg_wifi_init_done := d\<rparr>)"
  "(restatic x y s)\<lparr>sg_wifi_sta_connected := c\<rparr> = restatic x y (s\<lparr>sg_wifi_sta_connected := c\<rparr>)"
  by (simp_all add: restatic_def)

lemma vcall_restatic:
  "vcall V c (restatic x y s) = apsnd (restatic x y) (vcall V c s)"
  by (simp add: vcall_def restatic_def)

lemma xEventGroupCreate_restatic:
  "xEventGroupCreate V (restatic x y s) = apsnd (restatic x y) (xEventGroupCreate V s)"
  by (simp add: xEventGroupCreate_def vcall_def restatic_def Let_def)

lemma xEventGroupClearBits_restatic:
  "xEventGroupClearBits h m (restatic x y s) =
   map_sum (apsnd (restatic x y)) (restatic x y) (xEventGroupClearBits h m s)"
  by (simp add: xEventGroupClearBits_def group_bits_def restatic_def split: option.splits)

lemma esp_event_handler_register_restatic:
  "esp_event_handler_register V b f h (restatic x y s) =
   apsnd (restatic x y) (esp_event_handler_register V b f h s)"
  by (simp add: esp_event_handler_register_def vcall_def restatic_def Let_def)

lemma case_prod_apsnd:
  "(case apsnd g p of (a, b) \<Rightarrow> f a b) = (case p of (a, b) \<Rightarrow> f a (g b))"
  by (cases p) simp

lemma case_sum_map_sum:
  "(case map_sum h k r of Inl a \<Rightarrow> f a | Inr b \<Rightarrow> g b) =
   (case r of Inl a \<Rightarrow> f (h a) | Inr b \<Rightarrow> g (k b))"
  by (cases r) simp_all

lemmas map_sum_distribs =
  if_distrib [of "map_sum f g"] prod.case_distrib [of "map_sum f g"]
  sum.case_distrib [of "map_sum f g"] option.case_distrib [of "map_sum f g"] for f g

lemmas restatic_simps = restatic_upd vcall_restatic xEventGroupCreate_restatic
  xEventGroupClearBits_restatic esp_event_handler_register_restatic
  case_prod_apsnd case_sum_map_sum map_sum_distribs

lemma wifi_init_block_restatic:
  "wifi_init_block V (restatic x y s) =
   map_sum (apsnd (restatic x y)) (apsnd (restatic x y)) (wifi_init_block V s)"
  by (simp add: wifi_init_block_def restatic_simps Let_def split del: if_split
      cong: if_cong sum.case_cong option.case_cong prod.case_cong)

lemma wifi_ap_init_restatic:
  "wifi_ap_init V ssid psw ch (restatic x y s) =
   map_sum (apsnd (restatic x y)) (apsnd (restatic x y)) (wifi_ap_init V ssid psw ch s)"
  by (simp add: wifi_ap_init_def wifi_init_block_restatic restatic_simps Let_def
      split del: if_split
      cong: if_cong sum.case_cong option.case_cong prod.case_cong)

lemma wifi_sta_init_restatic:
  "wifi_sta_init V (restatic x y s) =
   map_sum (apsnd (restatic x y)) (apsnd (restatic x y)) (wifi_sta_init V s)"
  by (simp add: wifi_sta_init_def wifi_init_block_restatic restatic_simps Let_def
      split del: if_split
      cong: if_cong sum.case_cong option.case_cong prod.case_cong)

lemma observe_restatic:
  "observe (returning f (map_sum (apsnd (restatic x y)) (apsnd (restatic x y)) r)) =
   observe (returning f r)"
  by (auto simp add: observe_def returning_def split: sum.splits)

lemma view_step_upd:
  "observe (step V a (s\<lparr>router_wifi_config_apsta := x, router_wifi_config_sta := y\<rparr>))
   = observe (step V a s)"
proof (cases a)
  case (Wifi_ap_init ssid psw ch)
  with wifi_ap_init_restatic [of V ssid psw ch x y s] observe_restatic show ?thesis
    by (simp add: restatic_def)
next
  case Wifi_sta_init
  with wifi_sta_init_restatic [of V x y s] observe_restatic show ?thesis
    by (simp add: restatic_def)
next
  case (Wifi_ap_sta_connect ssid psw)
  then show ?thesis
    by (auto simp add: returning_def observe_def module_view_def wifi_ap_sta_connect_def
        vcall_def Let_def split: sum.splits if_splits)
next
  case (Wifi_sta_connect ssid psw)
  then show ?thesis
    by (auto simp add: returning_def observe_def module_view_def wifi_sta_connect_def
        vcall_def Let_def split: sum.splits if_splits)
next
  case Wifi_stop_softap
  then show ?thesis
    by (auto simp add: returning_def observe_def module_view_def wifi_stop_softap_def
        vcall_def Let_def split: sum.splits if_splits)
next
  case Wifi_start_smartconfig
  then show ?thesis
    by (auto simp add: returning_def observe_def module_view_def wifi_start_smartconfig_def
        vcall_def Let_def split: sum.splits if_splits)
next
  case Wifi_stop_smartconfig
  then show ?thesis
    by (auto simp add: returning_def observe_def module_view_def wifi_stop_smartconfig_def
        vcall_def xEventGroupClearBits_def group_bits_def Let_def
        split: sum.splits if_splits option.splits)
next
  case (Wifi_wait_event t)
  then show ?thesis
    by (auto simp add: returning_def observe_def module_view_def wifi_wait_event_def
        xEventGroupWaitBits_def group_bits_def Let_def
        split: sum.splits if_splits option.splits)
next
  case Wifi_start_running
  then show ?thesis
    by (auto simp add: returning_def observe_def module_view_def wifi_start_running_def
        vcall_def Let_def split: sum.splits if_splits)
next
  case Is_wifi_sta_connected
  then show ?thesis
    by (auto simp add: returning_def observe_def module_view_def is_wifi_sta_connected_def)
next
  case (Event base ev)
  have "module_view (s\<lparr>router_wifi_config_apsta := x, router_wifi_config_sta := y\<rparr>) = module_view s"
    by (simp add: module_view_def)
  from view_dispatch [OF this, of V base ev "handlers s"] Event show ?thesis
    by (auto simp add: esp_event_post_def observe_def observe_unit_def
        split: sum.splits prod.splits)
qed

lemma view_step:
  assumes "module_view s = module_view t"
  shows "observe (step V a s) = observe (step V a t)"
  by (subst view_eqD [OF assms]) (rule view_step_upd [symmetric])

text \<open>
  C7. What lasts from one call to the next is the event-group handle and the two
  booleans: the two function-level \<^verbatim>\<open>router_wifi_config\<close> statics are
  overwritten before they are read, so whatever they hold, every sequence of calls
  and events gives the same outcomes, the same faults and the same world but for
  those two statics.
\<close>

theorem statics_carry_nothing:
  "module_view s = module_view t \<Longrightarrow> observe (run V acts s) = observe (run V acts t)"
proof (induction acts arbitrary: s t)
  case Nil
  then show ?case by (simp add: observe_def)
next
  case (Cons a acts)
  note st = view_step [OF Cons.prems, of V a]
  show ?case
  proof (cases "step V a s")
    case (Inl e)
    with st show ?thesis
      by (auto simp add: observe_def split: sum.splits prod.splits)
  next
    case (Inr p)
    obtain out s1 where p: "p = (out, s1)" by (cases p)
    with st Inr obtain t1 where t1: "step V a t = Inr (out, t1)" "module_view s1 = module_view t1"
      by (auto simp add: observe_def split: sum.splits prod.splits)
    from Cons.IH [OF t1(2)] Inr p t1(1) show ?thesis
      by (auto simp add: observe_def split: sum.splits prod.splits)
  qed
qed

theorem statics_carry_nothing_witness:
  "module_view flapped =
     module_view (flapped\<lparr>router_wifi_config_sta := zero_wifi_config\<lparr>cfg_channel := 9\<rparr>\<rparr>) \<and>
   observe (run plain_vendor [Wifi_sta_connect ''home'' ''pass'', Wifi_wait_event 10] flapped) =
   observe (run plain_vendor [Wifi_sta_connect ''home'' ''pass'', Wifi_wait_event 10]
     (flapped\<lparr>router_wifi_config_sta := zero_wifi_config\<lparr>cfg_channel := 9\<rparr>\<rparr>))"
proof -
  have h: "module_view flapped =
     module_view (flapped\<lparr>router_wifi_config_sta := zero_wifi_config\<lparr>cfg_channel := 9\<rparr>\<rparr>)"
    by (simp add: module_view_def)
  from statics_carry_nothing [OF h] h show ?thesis
    by blast
qed

subsection \<open>Status codes of the driver\<close>

lemma ff_wifi_ap_init:
  "wifi_ap_init V ssid psw ch s = Inr (rc, s') \<Longrightarrow>
   rc = first_failure V (calls s) (new_calls s s')"
  by (auto simp add: wifi_ap_init_def wifi_init_block_def new_calls_def vcall_def
      xEventGroupCreate_def xEventGroupClearBits_def esp_event_handler_register_def
      Let_def ESP_OK_def
      split: option.splits if_splits prod.splits sum.splits)

lemma ff_wifi_sta_init:
  "wifi_sta_init V s = Inr (rc, s') \<Longrightarrow>
   rc = first_failure V (calls s) (new_calls s s')"
  by (auto simp add: wifi_sta_init_def wifi_init_block_def new_calls_def vcall_def
      xEventGroupCreate_def xEventGroupClearBits_def
      Let_def ESP_OK_def
      split: option.splits if_splits prod.splits sum.splits)

text \<open>
  C3. Each forwarding function other than \<open>wifi_stop_softap\<close>
  returns the status of the first failing call among the driver calls whose status
  it tests and returns (\<^verbatim>\<open>esp_wifi_init\<close>, \<^verbatim>\<open>esp_wifi_set_storage\<close>,
  \<^verbatim>\<open>esp_wifi_set_mode\<close>, \<^verbatim>\<open>esp_wifi_set_config\<close>, \<^verbatim>\<open>esp_wifi_connect\<close>,
  \<^verbatim>\<open>esp_smartconfig_set_type\<close>, \<^verbatim>\<open>esp_smartconfig_stop\<close>,
  \<^verbatim>\<open>esp_wifi_start\<close>), \<open>ESP_ERR_NO_MEM\<close> when the event group cannot be created,
  and \<open>ESP_OK\<close> when none of them fails. A failure of \<^verbatim>\<open>esp_wifi_disconnect\<close> or
  \<^verbatim>\<open>esp_wifi_stop\<close> in the two init functions does not change what they return.
\<close>

theorem checked_status_is_returned:
  assumes "forwarding a" and "step V a s = Inr (Status rc, s')"
  shows "rc = first_failure V (calls s) (new_calls s s')"
proof (cases a)
  case (Wifi_ap_init ssid psw ch)
  with assms(2) show ?thesis
    by (auto simp add: returning_def dest: ff_wifi_ap_init split: sum.splits)
next
  case Wifi_sta_init
  with assms(2) show ?thesis
    by (auto simp add: returning_def dest: ff_wifi_sta_init split: sum.splits)
next
  case (Wifi_ap_sta_connect ssid psw)
  with assms(2) show ?thesis
    by (auto simp add: returning_def wifi_ap_sta_connect_def vcall_def new_calls_def
        Let_def ESP_OK_def split: sum.splits if_splits)
next
  case (Wifi_sta_connect ssid psw)
  with assms(2) show ?thesis
    by (auto simp add: returning_def wifi_sta_connect_def vcall_def new_calls_def
        Let_def ESP_OK_def split: sum.splits if_splits)
next
  case Wifi_start_smartconfig
  with assms(2) show ?thesis
    by (auto simp add: returning_def wifi_start_smartconfig_def vcall_def new_calls_def
        Let_def ESP_OK_def split: sum.splits if_splits)
next
  case Wifi_stop_smartconfig
  with assms(2) show ?thesis
    by (auto simp add: returning_def wifi_stop_smartconfig_def vcall_def new_calls_def
        xEventGroupClearBits_def Let_def ESP_OK_def
        split: sum.splits if_splits option.splits)
next
  case Wifi_start_running
  with assms(2) show ?thesis
    by (auto simp add: returning_def wifi_start_running_def vcall_def new_calls_def ESP_OK_def)
qed (use assms(1) in simp_all)

theorem checked_status_is_returned_witness:
  "forwarding (Wifi_sta_connect ''home'' ''pass'') \<and>
   (\<exists>s'. step sta_mode_refused (Wifi_sta_connect ''home'' ''pass'') ap_ready =
            Inr (Status 0x3001, s') \<and>
          first_failure sta_mode_refused (calls ap_ready) (new_calls ap_ready s') = 0x3001)"
proof -
  have a: "forwarding (Wifi_sta_connect ''home'' ''pass'')"
    by simp
  obtain s' where b: "step sta_mode_refused (Wifi_sta_connect ''home'' ''pass'') ap_ready =
      Inr (Status 0x3001, s')"
    by (simp add: ap_ready_def sta_mode_refused_def model_defs)
  from checked_status_is_returned [OF a b] a b show ?thesis
    by auto
qed

text \<open>
  C3, for a call whose status is only logged: on a first \<open>wifi_ap_init\<close> the
  driver refuses \<^verbatim>\<open>esp_wifi_disconnect\<close>, and the function returns \<open>ESP_OK\<close>.
\<close>

theorem disconnect_failure_not_returned:
  "step not_started (Wifi_ap_init ''light'' None 6) boot =
     Inr (Status ESP_OK, final (step not_started (Wifi_ap_init ''light'' None 6) boot)) \<and>
   Esp_wifi_disconnect \<in>
     set (calls (final (step not_started (Wifi_ap_init ''light'' None 6) boot))) \<and>
   not_started
     [Esp_netif_init, XEventGroupCreate, Esp_event_loop_create_default,
      Esp_netif_create_default_wifi_ap, Esp_netif_create_default_wifi_sta, Esp_wifi_init]
     Esp_wifi_disconnect = 0x3002"
  by (simp add: not_started_def model_defs)

subsection \<open>The mode each function sets\<close>

lemma strcpy_zero:
  "strcpy (replicate n NUL) src = src @ NUL # replicate (n - Suc (length src)) NUL"
  by (simp add: strcpy_def)


lemma ap_wifi_config_eq:
  "ap_wifi_config ssid psw ch =
    \<lparr>cfg_ssid = ssid @ NUL # replicate (31 - length ssid) NUL,
     cfg_password =
       (case psw of None \<Rightarrow> replicate 64 NUL
        | Some p \<Rightarrow> p @ NUL # replicate (63 - length p) NUL),
     cfg_ssid_len = of_nat (length ssid), cfg_channel = ch,
     cfg_authmode = (case psw of None \<Rightarrow> WIFI_AUTH_OPEN | Some p \<Rightarrow> WIFI_AUTH_WPA_WPA2_PSK),
     cfg_max_connection = 3\<rparr>"
  by (cases psw) (simp_all add: ap_wifi_config_def zero_wifi_config_def strcpy_zero Let_def)

text \<open>
  The copies of \<open>wifi_ap_init\<close> keep to their arrays only for an SSID of at most
  31 bytes and a password of at most 63; from 32 and 64 bytes on they run past the
  end. The copies of the two connect functions never do.
\<close>

lemma strcpy_length:
  "length (strcpy dst src) = max (length dst) (Suc (length src))"
  by (simp add: strcpy_def)

lemma strncpy_length: "n \<le> length dst \<Longrightarrow> length (strncpy dst src n) = length dst"
  by (simp add: strncpy_def)

lemma ap_wifi_config_overrun:
  "length (cfg_ssid (ap_wifi_config ssid psw ch)) = max 32 (Suc (length ssid))"
  "length (cfg_password (ap_wifi_config ssid (Some p) ch)) = max 64 (Suc (length p))"
  by (simp_all add: ap_wifi_config_eq)









subsection \<open>The registered handlers\<close>

text \<open>
  \<open>wifi_sta_init\<close> registers nothing, whatever the driver answers; a
  \<open>wifi_ap_init\<close> that returns after the init block has added the two handlers of
  the file to those the event loop held, and nothing else.
\<close>

lemma wifi_sta_init_keeps_handlers:
  "handlers (final (wifi_sta_init V s)) = handlers s"
  by (auto simp add: wifi_sta_init_def wifi_init_block_def final_def vcall_def
      xEventGroupCreate_def xEventGroupClearBits_def Let_def
      split: option.splits if_splits prod.splits sum.splits)

lemma wifi_ap_init_installs_handlers:
  "wifi_ap_init V ssid psw ch s = Inr (rc, s') \<Longrightarrow> sg_wifi_init_done s' \<Longrightarrow>
   set (handlers s') = set (handlers s) \<union>
     {(IP_EVENT, Only_id IP_EVENT_STA_GOT_IP, Ip_event_handler),
      (WIFI_EVENT, ESP_EVENT_ANY_ID, Wifi_event_handler_new)}"
  by (auto simp add: wifi_ap_init_def wifi_init_block_def vcall_def
      xEventGroupCreate_def xEventGroupClearBits_def esp_event_handler_register_def
      add_handler_def Let_def
      split: option.splits if_splits prod.splits sum.splits)

text \<open>
  C4. The two handlers are registered by \<open>wifi_ap_init\<close> only. After a first
  \<open>wifi_sta_init\<close> that the driver accepts the event loop holds no handler of the
  file: the got-IP event sets no bit and \<open>wifi_wait_event\<close> times out. After
  \<open>wifi_ap_init\<close> the same calls and event end in \<open>EVENT_WIFI_CONNECTED\<close>.
\<close>

theorem sta_init_installs_no_handler:
  "run plain_vendor
     [Wifi_sta_init, Wifi_sta_connect ''home'' ''pass'', Event IP_EVENT IP_EVENT_STA_GOT_IP,
      Wifi_wait_event 1000] boot =
     Inr ([Status ESP_OK, Status ESP_OK, Delivered, Waited EVENT_WAIT_TIMEOUT],
          final (run plain_vendor
            [Wifi_sta_init, Wifi_sta_connect ''home'' ''pass'',
             Event IP_EVENT IP_EVENT_STA_GOT_IP, Wifi_wait_event 1000] boot)) \<and>
   handlers (final (wifi_sta_init plain_vendor boot)) = [] \<and>
   run plain_vendor
     [Wifi_ap_init ''light'' None 6, Wifi_sta_connect ''home'' ''pass'',
      Event IP_EVENT IP_EVENT_STA_GOT_IP, Wifi_wait_event 1000] boot =
     Inr ([Status ESP_OK, Status ESP_OK, Delivered, Waited EVENT_WIFI_CONNECTED],
          final (run plain_vendor
            [Wifi_ap_init ''light'' None 6, Wifi_sta_connect ''home'' ''pass'',
             Event IP_EVENT IP_EVENT_STA_GOT_IP, Wifi_wait_event 1000] boot)) \<and>
   handlers ap_ready =
     [(IP_EVENT, Only_id IP_EVENT_STA_GOT_IP, Ip_event_handler),
      (WIFI_EVENT, ESP_EVENT_ANY_ID, Wifi_event_handler_new)]"
  by (simp add: ap_ready_def model_defs)

end
